theory Spec2Isabelle
  imports Complex_Main "HOL-Library.Word"
begin

unbundle bit_operations_syntax

section \<open>Conventions of the embedding\<close>

text \<open>
  The TypeScript sources compute with the type \<open>number\<close> (IEEE-754 doubles).  The embedding
  reads a \<open>number\<close> as a mathematical \<^typ>\<open>real\<close>: finite values, exact arithmetic.  The
  32-bit integer operators of the random source (\<open>>>>\<close>, \<open>^\<close>, \<open>|\<close>, \<open>Math.imul\<close>) are
  modelled on \<^typ>\<open>32 word\<close>.  Objects are records, string enums are datatypes, objects
  indexed by a fixed key set are total functions on the key type, optional fields are
  \<^typ>\<open>'a option\<close>.  Methods that mutate \<open>this\<close> take the object and return the updated one.
\<close>

section \<open>The seeded random source\<close>

text \<open>
  Source: \<^verbatim>\<open>src/packages/core/src/io/export.ts\<close>, the part headed "Seeded Random Number
  Generator".  \<open>class SeededRandom { private seed: number; ... }\<close>: the field is a \<open>number\<close> that only
  ever holds a non-negative integer: the constructor stores \<open>seed >>> 0\<close> and \<open>next()\<close> adds
  the constant \<open>0x6d2b79f5\<close> without truncating, so the field grows beyond 32 bits.
\<close>

record SeededRandom =
  seed :: nat

text \<open>\<open>x >>> 0\<close> (ToUint32): truncate towards zero, then reduce modulo \<open>2^32\<close>.\<close>

definition ToUint32 :: "real \<Rightarrow> nat" where
  "ToUint32 x = nat ((if 0 \<le> x then \<lfloor>x\<rfloor> else \<lceil>x\<rceil>) mod 4294967296)"

text \<open>The number of binary digits of a natural number.\<close>

fun bit_length :: "nat \<Rightarrow> nat" where
  "bit_length n = (if n = 0 then 0 else Suc (bit_length (n div 2)))"

text \<open>
  The double nearest to a natural number (round to nearest, ties to even, 53 significant
  bits): what \<open>+\<close> on two integer-valued doubles returns for their exact sum.
\<close>

definition round_to_double :: "nat \<Rightarrow> nat" where
  "round_to_double n =
     (if n < 2 ^ 53 then n
      else let e = bit_length n - 53;
               q = n div 2 ^ e;
               r = n mod 2 ^ e;
               h = 2 ^ (e - 1)
           in if r < h \<or> (r = h \<and> even q) then q * 2 ^ e else (q + 1) * 2 ^ e)"

text \<open>\<open>Math.imul(a, b)\<close>: the low 32 bits of the product.\<close>

definition Math_imul :: "32 word \<Rightarrow> 32 word \<Rightarrow> 32 word" where
  "Math_imul a b = a * b"

text \<open>\<open>new SeededRandom(seed)\<close>: \<open>this.seed = seed >>> 0\<close>.\<close>

definition SeededRandom_new :: "real \<Rightarrow> SeededRandom" where
  "SeededRandom_new s = \<lparr>seed = ToUint32 s\<rparr>"

text \<open>
  \<open>next()\<close> (Mulberry32).  \<open>t = (this.seed += 0x6d2b79f5)\<close> is a double addition; every later
  operator first reduces its operand to 32 bits, \<open>t + Math.imul(..)\<close> is an exact sum of two
  32-bit integers that \<open>^=\<close> reduces again, and the final \<open>>>> 0\<close> reads the word unsigned.
  Returns the drawn value and the updated instance.
\<close>

definition SeededRandom_next :: "SeededRandom \<Rightarrow> real \<times> SeededRandom" where
  "SeededRandom_next r =
     (let s = round_to_double (seed r + 1831565813);
          t0 = (word_of_nat s :: 32 word);
          t1 = Math_imul (t0 XOR drop_bit 15 t0) (t0 OR 1);
          t2 = t1 XOR (t1 + Math_imul (t1 XOR drop_bit 7 t1) (t1 OR 61))
      in (real (unat (t2 XOR drop_bit 14 t2)) / 4294967296, r\<lparr>seed := s\<rparr>))"

text \<open>The values of \<open>n\<close> successive calls of \<open>next()\<close> on one instance.\<close>

fun next_sequence :: "nat \<Rightarrow> SeededRandom \<Rightarrow> real list" where
  "next_sequence 0 r = []"
| "next_sequence (Suc n) r = fst (SeededRandom_next r) # next_sequence n (snd (SeededRandom_next r))"

text \<open>
  Two instances \<open>a\<close> and \<open>b\<close>, each with its own \<open>seed\<close> field, driven by one caller: the
  schedule says which instance the next call of \<open>next()\<close> goes to (\<open>True\<close> for \<open>a\<close>).  The
  result is the list of values each instance returned.
\<close>

fun interleaved_calls :: "bool list \<Rightarrow> SeededRandom \<times> SeededRandom \<Rightarrow> real list \<times> real list" where
  "interleaved_calls [] (a, b) = ([], [])"
| "interleaved_calls (True # cs) (a, b) =
     (let (v, a') = SeededRandom_next a; (xs, ys) = interleaved_calls cs (a', b) in (v # xs, ys))"
| "interleaved_calls (False # cs) (a, b) =
     (let (v, b') = SeededRandom_next b; (xs, ys) = interleaved_calls cs (a, b') in (xs, v # ys))"

section \<open>Constants and the data model\<close>

text \<open>Source: \<^verbatim>\<open>src/unnamed/part_004\<close> (the core type definitions).  \<open>SIMULATION_CONSTANTS\<close>:\<close>

definition CES_EXPONENT :: real where "CES_EXPONENT = 0.8"
definition KEY_PERSON_Z_SCORE :: real where "KEY_PERSON_Z_SCORE = 1.645"
definition KEY_PERSON_RATIO :: real where "KEY_PERSON_RATIO = 0.05"
definition SCORE_AVG_WEIGHT :: real where "SCORE_AVG_WEIGHT = 0.6"
definition SCORE_MIN_WEIGHT :: real where "SCORE_MIN_WEIGHT = 0.4"
definition DIGITAL_AI_DECAY :: real where "DIGITAL_AI_DECAY = 1.5"
definition STANDARD_DECAY :: real where "STANDARD_DECAY = 0.3"
definition AGE_EFFICIENCY_MIN :: real where "AGE_EFFICIENCY_MIN = 0.3"
definition AGE_EFFICIENCY_BASE_AGE :: real where "AGE_EFFICIENCY_BASE_AGE = 22"
definition AGE_EFFICIENCY_RANGE :: real where "AGE_EFFICIENCY_RANGE = 60"
definition DEVIATION_BASE :: real where "DEVIATION_BASE = 50"
definition DEVIATION_SCALE :: real where "DEVIATION_SCALE = 10"

datatype CapabilityAxisKey =
    basicScience | appliedTech | digitalAI | manufacturing | finance | energy
  | globalCompete | innovation | education | policyMaking | implementation | succession

definition CAPABILITY_AXIS_KEYS :: "CapabilityAxisKey list" where
  "CAPABILITY_AXIS_KEYS =
     [basicScience, appliedTech, digitalAI, manufacturing, finance, energy,
      globalCompete, innovation, education, policyMaking, implementation, succession]"

datatype SectorKey = university | industry | government | research

definition SECTOR_KEYS :: "SectorKey list" where
  "SECTOR_KEYS = [university, industry, government, research]"

text \<open>
  A JavaScript string is a sequence of UTF-16 code units.  Identifiers and English labels are
  ASCII and written as \<^typ>\<open>string\<close>; the Japanese labels, which
  \<open>calculateSuccessionScore\<close> searches with \<open>includes\<close>, are lists of code units.
\<close>

type_synonym jsstring = "nat list"

record SectorDefinition =
  key :: SectorKey
  name :: jsstring
  nameEn :: string
  icon :: jsstring
  color :: string
  growthAxes :: "CapabilityAxisKey list"
  growthMultiplier :: real

definition SECTORS :: "SectorDefinition list" where
  "SECTORS =
     [\<lparr>key = university, name = [22823, 23398], nameEn = ''University'', icon = [55356, 57235],
       color = ''#8b5cf6'', growthAxes = [basicScience, education, innovation],
       growthMultiplier = 2.5\<rparr>,
      \<lparr>key = industry, name = [29987, 26989, 30028], nameEn = ''Industry'', icon = [55356, 57325],
       color = ''#10b981'', growthAxes = [appliedTech, manufacturing, digitalAI, implementation],
       growthMultiplier = 3.0\<rparr>,
      \<lparr>key = government, name = [25919, 24220], nameEn = ''Government'',
       icon = [55356, 57307, 65039], color = ''#f59e0b'',
       growthAxes = [policyMaking, globalCompete], growthMultiplier = 2.0\<rparr>,
      \<lparr>key = research, name = [30740, 31350, 27231, 38306], nameEn = ''Research Institute'',
       icon = [55357, 56620], color = ''#3b82f6'',
       growthAxes = [basicScience, appliedTech, innovation, globalCompete],
       growthMultiplier = 2.8\<rparr>]"

record SkillDistribution =
  mean :: real
  std :: real

type_synonym SkillVector = "CapabilityAxisKey \<Rightarrow> real"
type_synonym SkillDistributionVector = "CapabilityAxisKey \<Rightarrow> SkillDistribution"

record Cohort =
  id_cohort :: string
  sector :: SectorKey
  role :: jsstring
  roleEn :: string
  count :: real
  avgAge :: real
  avgTenure :: real
  maxTenure :: real
  skills :: SkillDistributionVector

type_synonym InvestmentAllocation = "SectorKey \<Rightarrow> real"

record PolicyParameters =
  masterEnrollment :: real
  phdEnrollment :: real
  phdToAcademia :: real
  populationDeclineRate :: real
  retirementAgeExtension :: real

text \<open>\<open>Partial<PolicyParameters>\<close>: every field may be absent.\<close>

record PartialPolicyParameters =
  masterEnrollment_opt :: "real option"
  phdEnrollment_opt :: "real option"
  phdToAcademia_opt :: "real option"
  populationDeclineRate_opt :: "real option"
  retirementAgeExtension_opt :: "real option"

definition DEFAULT_POLICY_PARAMS :: PolicyParameters where
  "DEFAULT_POLICY_PARAMS =
     \<lparr>masterEnrollment = 12, phdEnrollment = 10, phdToAcademia = 18,
      populationDeclineRate = 1.2, retirementAgeExtension = 0\<rparr>"

definition DEFAULT_INVESTMENTS :: InvestmentAllocation where
  "DEFAULT_INVESTMENTS =
     (\<lambda>s. case s of university \<Rightarrow> 30 | industry \<Rightarrow> 35 | government \<Rightarrow> 15 | research \<Rightarrow> 20)"

datatype SimulationMode = mode_cohort | mode_individual | mode_hybrid

text \<open>
  \<open>SimulationConfig\<close>; \<open>seed\<close> is optional in the interface, and the engine's constructor
  always fills it in.
\<close>

record SimulationConfig =
  mode :: SimulationMode
  seed_config :: "real option"
  baseYear :: real
  enableStochasticity :: bool

text \<open>\<open>Partial<SimulationConfig>\<close>.\<close>

record PartialSimulationConfig =
  mode_opt :: "SimulationMode option"
  seed_opt :: "real option"
  baseYear_opt :: "real option"
  enableStochasticity_opt :: "bool option"

record SimulationState =
  year :: real
  entities :: "Cohort list"
  capability :: SkillVector
  capabilityNormalized :: SkillVector
  investments :: InvestmentAllocation
  policyParams :: PolicyParameters
  totalTalent :: real
  successionScore :: real
  config :: SimulationConfig

record HistoryEntry =
  year_h :: real
  capability_h :: SkillVector
  capabilityNormalized_h :: SkillVector
  totalScore :: real
  successionScore_h :: real
  totalTalent_h :: real
  investments_h :: InvestmentAllocation

record SimulationStatistics =
  avgScore :: real
  minScore :: real
  maxScore :: real
  scoreGrowth :: real

record SimulationResult =
  finalState :: SimulationState
  history_r :: "HistoryEntry list"
  statistics :: SimulationStatistics

section \<open>JavaScript library functions\<close>

text \<open>\<open>Math.round\<close>: the nearest integer, halves rounded towards plus infinity.\<close>

definition Math_round :: "real \<Rightarrow> real" where
  "Math_round x = of_int \<lfloor>x + 1 / 2\<rfloor>"

text \<open>
  \<open>Math.pow\<close> at a non-negative base.  (At a negative base and a fractional exponent the
  source yields \<open>NaN\<close>, which the reals do not have; no caller below reaches that with
  non-negative weights.)
\<close>

definition Math_pow :: "real \<Rightarrow> real \<Rightarrow> real" where
  "Math_pow x y = x powr y"

text \<open>
  \<open>Math.min(...xs)\<close> and \<open>Math.max(...xs)\<close> of a non-empty argument list.  For no arguments
  the source yields an infinity; the model leaves that value unspecified, and every caller
  below passes a non-empty list.
\<close>

definition Math_min :: "real list \<Rightarrow> real" where
  "Math_min xs = foldl min (hd xs) (tl xs)"

definition Math_max :: "real list \<Rightarrow> real" where
  "Math_max xs = foldl max (hd xs) (tl xs)"

text \<open>\<open>s.includes(pat)\<close>: \<open>pat\<close> occurs in \<open>s\<close> as a contiguous run of code units.\<close>

fun starts_with :: "'a list \<Rightarrow> 'a list \<Rightarrow> bool" where
  "starts_with s [] = True"
| "starts_with [] (p # ps) = False"
| "starts_with (x # xs) (p # ps) = (x = p \<and> starts_with xs ps)"

fun includes_js :: "'a list \<Rightarrow> 'a list \<Rightarrow> bool" where
  "includes_js [] pat = starts_with [] pat"
| "includes_js (x # xs) pat = (starts_with (x # xs) pat \<or> includes_js xs pat)"

section \<open>Statistical functions\<close>



text \<open>The coefficient arrays \<open>a\<close>, \<open>b\<close>, \<open>c\<close>, \<open>d\<close> of \<open>percentileToZ\<close>.\<close>

definition percentileToZ_a :: "real list" where
  "percentileToZ_a =
     [-39.69683028665376, 220.9460984245205, -275.9285104469687,
      138.3577518672690, -30.66479806614716, 2.506628277459239]"

definition percentileToZ_b :: "real list" where
  "percentileToZ_b =
     [-54.47609879822406, 161.5858368580409, -155.6989798598866,
      66.80131188771972, -13.28068155288572]"

definition percentileToZ_c :: "real list" where
  "percentileToZ_c =
     [-0.007784894002430293, -0.3223964580411365, -2.400758277161838,
      -2.549732539343734, 4.374664141464968, 2.938163982698783]"

definition percentileToZ_d :: "real list" where
  "percentileToZ_d =
     [0.007784695709041462, 0.3224671290700398, 2.445134137142996, 3.754408661907416]"

definition percentileToZ :: "real \<Rightarrow> real" where
  "percentileToZ percentile =
     (let p = percentile / 100;
          a = percentileToZ_a; b = percentileToZ_b; c = percentileToZ_c; d = percentileToZ_d
      in if p \<le> 0 then - 4
         else if p \<ge> 1 then 4
         else let pLow = 0.02425; pHigh = 1 - pLow
              in if p < pLow then
                   (let q = sqrt (- 2 * ln p)
                    in (((((c!0 * q + c!1) * q + c!2) * q + c!3) * q + c!4) * q + c!5) /
                       ((((d!0 * q + d!1) * q + d!2) * q + d!3) * q + 1))
                 else if p \<le> pHigh then
                   (let q = p - 0.5; r = q * q
                    in (((((a!0 * r + a!1) * r + a!2) * r + a!3) * r + a!4) * r + a!5) * q /
                       (((((b!0 * r + b!1) * r + b!2) * r + b!3) * r + b!4) * r + 1))
                 else
                   (let q = sqrt (- 2 * ln (1 - p))
                    in - (((((c!0 * q + c!1) * q + c!2) * q + c!3) * q + c!4) * q + c!5) /
                       ((((d!0 * q + d!1) * q + d!2) * q + d!3) * q + 1)))"

definition keyPersonContribution :: "SkillDistribution \<Rightarrow> real \<Rightarrow> real \<Rightarrow> real" where
  "keyPersonContribution distribution cnt percentile =
     (let zScore = percentileToZ ((1 - percentile) * 100);
          keyPersonValue = mean distribution + zScore * std distribution;
          keyPersonCount = cnt * percentile
      in keyPersonValue * keyPersonCount)"

text \<open>\<open>xs[i]\<close> at an integer index: \<open>None\<close> stands for \<open>undefined\<close>, the value at an index
  outside the array.\<close>

definition index_js :: "'a list \<Rightarrow> int \<Rightarrow> 'a option" where
  "index_js xs i = (if 0 \<le> i \<and> i < int (length xs) then Some (xs ! nat i) else None)"

text \<open>
  The closure \<open>percentile\<close> of \<open>summarize\<close>, with the sorted array it captures: linear
  interpolation between the two sorted elements around the fractional index
  \<open>(p / 100) * (n - 1)\<close>.  (\<open>summarize\<close> itself calls it on a non-empty array with \<open>p\<close>
  between 0 and 100 only, where both indices lie inside the array.)
\<close>

definition summarize_percentile :: "real list \<Rightarrow> real \<Rightarrow> real option" where
  "summarize_percentile sortedArr p =
     (let n = real (length sortedArr);
          idx = (p / 100) * (n - 1);
          lower = \<lfloor>idx\<rfloor>;
          upper = \<lceil>idx\<rceil>
      in if lower = upper then index_js sortedArr lower
         else (case (index_js sortedArr lower, index_js sortedArr upper) of
                 (Some lo, Some hi) \<Rightarrow> Some (lo * (of_int upper - idx) + hi * (idx - of_int lower))
               | _ \<Rightarrow> None))"

section \<open>The CES production function\<close>

text \<open>Source: \<^verbatim>\<open>src/packages/core/src/math/ces.ts\<close>.\<close>

text \<open>
  \<open>calculateCESValue\<close>: the loop accumulates \<open>weightedSum\<close> and \<open>totalWeight\<close> over the
  indices of \<open>inputs\<close> (both arrays have the same length when it runs).
\<close>

definition calculateCESValue :: "real list \<Rightarrow> real list \<Rightarrow> real \<Rightarrow> real" where
  "calculateCESValue inputs weights exponent =
     (if length inputs \<noteq> length weights \<or> length inputs = 0 then 0
      else let (weightedSum, totalWeight) =
                 foldl (\<lambda>(weightedSum, totalWeight) (input, weight).
                          (let safeInput = max 0.01 input
                           in (weightedSum + weight * Math_pow safeInput exponent,
                               totalWeight + weight)))
                       (0, 0) (zip inputs weights)
           in if totalWeight = 0 then 0
              else Math_pow (weightedSum / totalWeight) (1 / exponent))"

text \<open>The \<open>options\<close> argument of the capability functions; absent fields take the defaults.\<close>

record CapabilityOptions =
  cesExponent :: "real option"
  keyPersonRatio :: "real option"
  includeKeyPersonBonus :: "bool option"

definition no_options :: CapabilityOptions where
  "no_options = \<lparr>cesExponent = None, keyPersonRatio = None, includeKeyPersonBonus = None\<rparr>"

definition calculateAxisCapability ::
  "Cohort list \<Rightarrow> CapabilityAxisKey \<Rightarrow> CapabilityOptions \<Rightarrow> real" where
  "calculateAxisCapability cohorts axisKey options =
     (let cesExponent' = (case cesExponent options of Some e \<Rightarrow> e | None \<Rightarrow> CES_EXPONENT);
          keyPersonRatio' = (case keyPersonRatio options of Some k \<Rightarrow> k | None \<Rightarrow> KEY_PERSON_RATIO);
          includeKeyPersonBonus' = (case includeKeyPersonBonus options of Some b \<Rightarrow> b | None \<Rightarrow> True);
          inputs = map (\<lambda>cohort. mean (skills cohort axisKey)) cohorts;
          weights = map count cohorts;
          totalKeyPersonContrib =
            foldl (\<lambda>total cohort.
                     if includeKeyPersonBonus'
                     then total + keyPersonContribution (skills cohort axisKey) (count cohort) keyPersonRatio'
                     else total)
                  0 cohorts;
          cesValue = calculateCESValue inputs weights cesExponent';
          totalCount = foldl (\<lambda>a b. a + b) 0 weights;
          keyPersonBonus =
            (if totalCount > 0 then (totalKeyPersonContrib / totalCount) * KEY_PERSON_RATIO else 0)
      in cesValue + keyPersonBonus)"

definition calculateNationalCapability :: "Cohort list \<Rightarrow> CapabilityOptions \<Rightarrow> SkillVector" where
  "calculateNationalCapability cohorts options =
     (\<lambda>axisKey. calculateAxisCapability cohorts axisKey options)"

definition calculateTotalScore :: "SkillVector \<Rightarrow> real" where
  "calculateTotalScore cap =
     (let vals = map cap CAPABILITY_AXIS_KEYS
      in if length vals = 0 then 0
         else let avg = foldl (\<lambda>a b. a + b) 0 vals / real (length vals);
                  mn = Math_min vals
              in SCORE_AVG_WEIGHT * avg + SCORE_MIN_WEIGHT * mn)"

definition normalizeCapability :: "SkillVector \<Rightarrow> SkillDistribution \<Rightarrow> SkillVector" where
  "normalizeCapability cap globalStats =
     (\<lambda>k. let v = cap k;
              z = (if std globalStats > 0 then (v - mean globalStats) / std globalStats else 0)
          in DEVIATION_BASE + DEVIATION_SCALE * z)"

section \<open>The simulation engine\<close>

text \<open>Source: \<^verbatim>\<open>src/unnamed/part_003\<close> (class \<open>SimulationEngine\<close> and its tables).\<close>

subsection \<open>Tables\<close>

text \<open>\<open>POPULATION_STATS\<close>; \<open>projections\<close> is an object with numeric keys, here the list of its
  entries in key order.\<close>

definition POPULATION_STATS_baseYear :: real where "POPULATION_STATS_baseYear = 2024"
definition POPULATION_STATS_age18Population :: real where "POPULATION_STATS_age18Population = 1100000"
definition POPULATION_STATS_age22Population :: real where "POPULATION_STATS_age22Population = 1150000"
definition POPULATION_STATS_universityEnrollmentRate :: real where
  "POPULATION_STATS_universityEnrollmentRate = 0.56"
definition POPULATION_STATS_projections :: "(real \<times> real) list" where
  "POPULATION_STATS_projections =
     [(2024, 1.0), (2030, 0.95), (2040, 0.84), (2050, 0.72), (2060, 0.60)]"

definition SECTOR_GROWTH_MAP :: "SectorKey \<Rightarrow> (CapabilityAxisKey \<Rightarrow> real option)" where
  "SECTOR_GROWTH_MAP s =
     (case s of
        university \<Rightarrow>
          map_of [(basicScience, 2.5), (education, 2.0), (innovation, 1.5), (succession, 1.0)]
      | industry \<Rightarrow>
          map_of [(appliedTech, 3.0), (manufacturing, 2.5), (digitalAI, 2.0),
                  (implementation, 2.0), (finance, 1.0)]
      | government \<Rightarrow>
          map_of [(policyMaking, 2.0), (globalCompete, 1.5), (energy, 1.0)]
      | research \<Rightarrow>
          map_of [(basicScience, 2.5), (appliedTech, 2.0), (innovation, 2.5),
                  (globalCompete, 1.5), (digitalAI, 1.5)])"

definition DECAY_RATES :: "CapabilityAxisKey \<Rightarrow> real option" where
  "DECAY_RATES = map_of [(digitalAI, DIGITAL_AI_DECAY)]"

definition getDecayRate :: "CapabilityAxisKey \<Rightarrow> real" where
  "getDecayRate axisKey = (case DECAY_RATES axisKey of Some d \<Rightarrow> d | None \<Rightarrow> STANDARD_DECAY)"

subsection \<open>The initial cohorts\<close>

definition createSkills :: "SectorKey \<Rightarrow> real \<Rightarrow> SkillDistributionVector" where
  "createSkills sectorKey bonus =
     (let baseMean = 50; baseStd = 12;
          sectorDef = find (\<lambda>s. key s = sectorKey) SECTORS
      in (\<lambda>axis.
            let isGrowthAxis = (case sectorDef of Some d \<Rightarrow> axis \<in> set (growthAxes d) | None \<Rightarrow> False)
            in \<lparr>mean = baseMean + bonus + (if isGrowthAxis then 10 else 0), std = baseStd\<rparr>))"

definition createInitialCohorts :: "Cohort list" where
  "createInitialCohorts =
     [\<lparr>id_cohort = ''master_student'', sector = university, role = [20462, 22763, 23398, 29983],
       roleEn = ''Master Student'', count = 60000, avgAge = 24, avgTenure = 1, maxTenure = 2,
       skills = createSkills university (- 10)\<rparr>,
      \<lparr>id_cohort = ''phd_student'', sector = university, role = [21338, 22763, 23398, 29983],
       roleEn = ''PhD Student'', count = 15000, avgAge = 27, avgTenure = 2, maxTenure = 5,
       skills = createSkills university (- 5)\<rparr>,
      \<lparr>id_cohort = ''postdoc'', sector = university, role = [12509, 12473, 12489, 12463],
       roleEn = ''Postdoc'', count = 8000, avgAge = 32, avgTenure = 2, maxTenure = 5,
       skills = createSkills university 5\<rparr>,
      \<lparr>id_cohort = ''assist_prof'', sector = university, role = [21161, 25945],
       roleEn = ''Assistant Professor'', count = 12000, avgAge = 36, avgTenure = 4, maxTenure = 10,
       skills = createSkills university 10\<rparr>,
      \<lparr>id_cohort = ''prof_mid'', sector = university, role = [20934, 25945, 25480],
       roleEn = ''Associate Professor'', count = 18000, avgAge = 45, avgTenure = 8, maxTenure = 15,
       skills = createSkills university 15\<rparr>,
      \<lparr>id_cohort = ''prof_senior'', sector = university, role = [25945, 25480],
       roleEn = ''Professor'', count = 25000, avgAge = 55, avgTenure = 15, maxTenure = 30,
       skills = createSkills university 20\<rparr>,
      \<lparr>id_cohort = ''ind_junior'', sector = industry, role = [33509, 25163, 25216, 34899, 32773],
       roleEn = ''Junior Engineer'', count = 150000, avgAge = 28, avgTenure = 3, maxTenure = 8,
       skills = createSkills industry 0\<rparr>,
      \<lparr>id_cohort = ''ind_mid'', sector = industry, role = [20013, 22533, 25216, 34899, 32773],
       roleEn = ''Mid-level Engineer'', count = 100000, avgAge = 38, avgTenure = 10, maxTenure = 20,
       skills = createSkills industry 10\<rparr>,
      \<lparr>id_cohort = ''ind_senior'', sector = industry,
       role = [12471, 12491, 12450, 25216, 34899, 32773],
       roleEn = ''Senior Engineer'', count = 50000, avgAge = 52, avgTenure = 20, maxTenure = 35,
       skills = createSkills industry 15\<rparr>,
      \<lparr>id_cohort = ''gov_junior'', sector = government, role = [33509, 25163, 23448, 20698],
       roleEn = ''Junior Official'', count = 25000, avgAge = 30, avgTenure = 2, maxTenure = 5,
       skills = createSkills government 0\<rparr>,
      \<lparr>id_cohort = ''gov_mid'', sector = government, role = [20013, 22533, 23448, 20698],
       roleEn = ''Mid-level Official'', count = 18000, avgAge = 42, avgTenure = 5, maxTenure = 10,
       skills = createSkills government 10\<rparr>,
      \<lparr>id_cohort = ''gov_senior'', sector = government, role = [24185, 37096, 23448, 20698],
       roleEn = ''Senior Official'', count = 7000, avgAge = 55, avgTenure = 10, maxTenure = 20,
       skills = createSkills government 15\<rparr>,
      \<lparr>id_cohort = ''res_junior'', sector = research, role = [33509, 25163, 30740, 31350, 32773],
       roleEn = ''Junior Researcher'', count = 20000, avgAge = 30, avgTenure = 3, maxTenure = 8,
       skills = createSkills research 5\<rparr>,
      \<lparr>id_cohort = ''res_mid'', sector = research, role = [20027, 20219, 30740, 31350, 32773],
       roleEn = ''Senior Researcher'', count = 18000, avgAge = 42, avgTenure = 8, maxTenure = 15,
       skills = createSkills research 12\<rparr>,
      \<lparr>id_cohort = ''res_senior'', sector = research, role = [20027, 24109, 30740, 31350, 32773],
       roleEn = ''Principal Researcher'', count = 12000, avgAge = 55, avgTenure = 15, maxTenure = 25,
       skills = createSkills research 18\<rparr>]"

subsection \<open>The engine object\<close>

record SimulationEngine =
  state :: SimulationState
  history :: "HistoryEntry list"
  rng :: SeededRandom

subsection \<open>Population dynamics\<close>

text \<open>
  \<open>getPopulationDeclineFactor\<close>: the loop runs over the sorted projection years from the last
  index down to 0 and returns at the first year that is not after \<open>year\<close>; every scanned year
  is a key of the table.
\<close>

fun scanProjections :: "(real \<times> real) list \<Rightarrow> real list \<Rightarrow> real \<Rightarrow> real" where
  "scanProjections projections [] yr = 1.0"
| "scanProjections projections (y # ys) yr =
     (if yr \<ge> y then the (map_of projections y) else scanProjections projections ys yr)"

definition getPopulationDeclineFactor :: "real \<Rightarrow> real" where
  "getPopulationDeclineFactor yr =
     (let projYears = sort (map fst POPULATION_STATS_projections)
      in scanProjections POPULATION_STATS_projections (rev projYears) yr)"

definition applyPopulationDynamics ::
  "SimulationState \<Rightarrow> Cohort list \<Rightarrow> PolicyParameters \<Rightarrow> Cohort list" where
  "applyPopulationDynamics this_state cohorts params =
     (let currentYear = baseYear (config this_state) + year this_state;
          declineFactor = getPopulationDeclineFactor currentYear;
          baseInflow = POPULATION_STATS_age22Population *
                       POPULATION_STATS_universityEnrollmentRate *
                       declineFactor;
          masterInflow = baseInflow * (masterEnrollment params / 100);
          phdInflow = masterInflow * (phdEnrollment params / 100)
      in map (\<lambda>cohort.
                let updated =
                      (if id_cohort cohort = ''master_student'' then
                         cohort\<lparr>count := Math_round (count cohort * 0.5 + masterInflow * 0.5)\<rparr>
                       else if id_cohort cohort = ''phd_student'' then
                         cohort\<lparr>count := Math_round (count cohort * 0.7 + phdInflow * 0.3)\<rparr>
                       else if id_cohort cohort = ''ind_junior'' then
                         (let industryInflow = baseInflow * 0.4 * (1 - masterEnrollment params / 100)
                          in cohort\<lparr>count := Math_round (count cohort * 0.9 + industryInflow * 0.1)\<rparr>)
                       else cohort)
                in updated\<lparr>avgAge := avgAge updated + 1, avgTenure := avgTenure updated + 1\<rparr>)
             cohorts)"

subsection \<open>Skill growth and decay\<close>

definition calculateAgeEfficiency :: "real \<Rightarrow> real" where
  "calculateAgeEfficiency age =
     max AGE_EFFICIENCY_MIN (1 - (age - AGE_EFFICIENCY_BASE_AGE) / AGE_EFFICIENCY_RANGE)"

text \<open>
  The inner loop of \<open>applySkillGrowth\<close> over the axis keys of one cohort.  With stochasticity
  enabled each axis draws once from the engine's random source, so the source is threaded
  through the loop.
\<close>

fun growSkills ::
  "bool \<Rightarrow> real \<Rightarrow> (CapabilityAxisKey \<Rightarrow> real option) \<Rightarrow> real \<Rightarrow> CapabilityAxisKey list \<Rightarrow>
   SkillDistributionVector \<times> SeededRandom \<Rightarrow> SkillDistributionVector \<times> SeededRandom" where
  "growSkills stochastic sectorInvestment growthMap age [] (sk, r) = (sk, r)"
| "growSkills stochastic sectorInvestment growthMap age (axisKey # rest) (sk, r) =
     (let skill = sk axisKey;
          growthMultiplier = (case growthMap axisKey of Some g \<Rightarrow> g | None \<Rightarrow> 0.5);
          ageEfficiency = calculateAgeEfficiency age;
          growth = sectorInvestment * growthMultiplier * ageEfficiency;
          (noise, r') = (if stochastic
                         then (let (v, r') = SeededRandom_next r in ((v - 0.5) * 0.5, r'))
                         else (0, r));
          skill' = skill\<lparr>mean := min 100 (max 0 (mean skill + growth + noise))\<rparr>
      in growSkills stochastic sectorInvestment growthMap age rest (sk(axisKey := skill'), r'))"

text \<open>The outer \<open>cohorts.map\<close> of \<open>applySkillGrowth\<close>, in array order.\<close>

fun growCohorts ::
  "bool \<Rightarrow> InvestmentAllocation \<Rightarrow> Cohort list \<Rightarrow> SeededRandom \<Rightarrow> Cohort list \<times> SeededRandom" where
  "growCohorts stochastic invest [] r = ([], r)"
| "growCohorts stochastic invest (cohort # rest) r =
     (let sectorInvestment = invest (sector cohort) / 100;
          growthMap = SECTOR_GROWTH_MAP (sector cohort);
          (sk, r') = growSkills stochastic sectorInvestment growthMap (avgAge cohort)
                       CAPABILITY_AXIS_KEYS (skills cohort, r);
          updated = cohort\<lparr>skills := sk\<rparr>;
          (rest', r'') = growCohorts stochastic invest rest r'
      in (updated # rest', r''))"

text \<open>\<open>applySkillGrowth\<close> reads \<open>this.state.config\<close> and advances \<open>this.rng\<close>; it returns
  the new cohorts and the advanced random source.\<close>

definition applySkillGrowth ::
  "SimulationEngine \<Rightarrow> Cohort list \<Rightarrow> InvestmentAllocation \<Rightarrow> Cohort list \<times> SeededRandom" where
  "applySkillGrowth this cohorts invest =
     growCohorts (enableStochasticity (config (state this))) invest cohorts (rng this)"

definition applySkillDecay :: "Cohort list \<Rightarrow> Cohort list" where
  "applySkillDecay cohorts =
     map (\<lambda>cohort.
            cohort\<lparr>skills :=
              foldl (\<lambda>sk axisKey.
                       let skill = sk axisKey; decayRate = getDecayRate axisKey
                       in sk(axisKey := skill\<lparr>mean := max 0 (mean skill - decayRate)\<rparr>))
                    (skills cohort) CAPABILITY_AXIS_KEYS\<rparr>)
         cohorts"

subsection \<open>Transitions\<close>

definition applyTransitions :: "Cohort list \<Rightarrow> Cohort list" where
  "applyTransitions cohorts =
     map (\<lambda>cohort.
            if avgTenure cohort \<ge> maxTenure cohort * 0.8 then
              (let attritionRate = 0.05 + (avgTenure cohort / maxTenure cohort) * 0.1
               in cohort\<lparr>count := Math_round (count cohort * (1 - attritionRate))\<rparr>)
            else cohort)
         cohorts"

subsection \<open>Succession score\<close>

text \<open>The first loop of \<open>calculateSuccessionScore\<close>: each cohort is pushed onto the array of
  its sector.\<close>

definition groupBySector :: "Cohort list \<Rightarrow> SectorKey \<Rightarrow> Cohort list" where
  "groupBySector cohorts =
     foldl (\<lambda>sectorCohorts cohort.
              sectorCohorts(sector cohort := sectorCohorts (sector cohort) @ [cohort]))
           (\<lambda>s. []) cohorts"

text \<open>The three components computed in the body of the second loop, for one non-empty sector.\<close>

definition ageDiversityScore :: "Cohort list \<Rightarrow> real" where
  "ageDiversityScore sectorC =
     (let ages = map avgAge sectorC;
          ageRange = Math_max ages - Math_min ages
      in min 100 ((ageRange / 40) * 100))"

definition tenureScore :: "Cohort list \<Rightarrow> real" where
  "tenureScore sectorC =
     (let tenureMargins = map (\<lambda>c. (maxTenure c - avgTenure c) / maxTenure c) sectorC;
          avgMargin = foldl (\<lambda>a b. a + b) 0 tenureMargins / real (length tenureMargins)
      in avgMargin * 100)"

definition mentorScore :: "Cohort list \<Rightarrow> real" where
  "mentorScore sectorC =
     (let totalCount = foldl (\<lambda>sum c. sum + count c) 0 sectorC;
          seniorCount =
            foldl (\<lambda>sum c. sum + count c) 0
              (filter (\<lambda>c. includes_js (role c) [12471, 12491, 12450] \<or>
                            includes_js (role c) [25945, 25480] \<or>
                            includes_js (role c) [24185, 37096])
                      sectorC)
      in min 100 ((seniorCount / totalCount) * 300))"

definition calculateSuccessionScore :: "Cohort list \<Rightarrow> real" where
  "calculateSuccessionScore cohorts =
     (let sectorCohorts = groupBySector cohorts;
          sectorScores =
            (\<lambda>s. let sectorC = sectorCohorts s
                 in if length sectorC = 0 then 0
                    else ageDiversityScore sectorC * 0.3 + tenureScore sectorC * 0.4 +
                         mentorScore sectorC * 0.3);
          scores = map sectorScores SECTOR_KEYS
      in foldl (\<lambda>a b. a + b) 0 scores / real (length scores))"

subsection \<open>Utility methods\<close>

definition calculateTotalTalent :: "Cohort list \<Rightarrow> real" where
  "calculateTotalTalent cohorts = foldl (\<lambda>sum c. sum + count c) 0 cohorts"

definition normalizeToDeviation :: "SkillVector \<Rightarrow> SkillVector" where
  "normalizeToDeviation cap =
     (let vals = map cap CAPABILITY_AXIS_KEYS;
          m = foldl (\<lambda>a b. a + b) 0 vals / real (length vals);
          variance = foldl (\<lambda>sum v. sum + (v - m) ^ 2) 0 vals / real (length vals);
          s = (if sqrt variance = 0 then 10 else sqrt variance)
      in normalizeCapability cap \<lparr>mean = m, std = s\<rparr>)"

definition recordHistory :: "SimulationEngine \<Rightarrow> SimulationEngine" where
  "recordHistory this =
     this\<lparr>history := history this @
       [\<lparr>year_h = year (state this),
         capability_h = capability (state this),
         capabilityNormalized_h = capabilityNormalized (state this),
         totalScore = calculateTotalScore (capability (state this)),
         successionScore_h = successionScore (state this),
         totalTalent_h = totalTalent (state this),
         investments_h = investments (state this)\<rparr>]\<rparr>"

subsection \<open>Constructor and public interface\<close>

text \<open>
  \<open>new SimulationEngine(config)\<close>.  The second argument is the reading of \<open>Date.now()\<close>, used
  as the seed when the configuration gives none.
\<close>

definition SimulationEngine_new :: "PartialSimulationConfig \<Rightarrow> real \<Rightarrow> SimulationEngine" where
  "SimulationEngine_new cfg now =
     (let fullSeed = (case seed_opt cfg of Some s \<Rightarrow> s | None \<Rightarrow> now);
          fullConfig =
            \<lparr>mode = (case mode_opt cfg of Some m \<Rightarrow> m | None \<Rightarrow> mode_cohort),
             seed_config = Some fullSeed,
             baseYear = (case baseYear_opt cfg of Some b \<Rightarrow> b | None \<Rightarrow> POPULATION_STATS_baseYear),
             enableStochasticity = (case enableStochasticity_opt cfg of Some b \<Rightarrow> b | None \<Rightarrow> False)\<rparr>;
          cohorts = createInitialCohorts;
          cap = calculateNationalCapability cohorts no_options
      in recordHistory
           \<lparr>state =
              \<lparr>year = 0,
               entities = cohorts,
               capability = cap,
               capabilityNormalized = normalizeToDeviation cap,
               investments = DEFAULT_INVESTMENTS,
               policyParams = DEFAULT_POLICY_PARAMS,
               totalTalent = calculateTotalTalent cohorts,
               successionScore = calculateSuccessionScore cohorts,
               config = fullConfig\<rparr>,
            history = [],
            rng = SeededRandom_new fullSeed\<rparr>)"

text \<open>
  \<open>getState()\<close> and \<open>getHistory()\<close> as values.  What they share with the engine's own objects
  is the subject of the store model at the end of the definitions.
\<close>

definition getState :: "SimulationEngine \<Rightarrow> SimulationState" where
  "getState this = state this"

definition getHistory :: "SimulationEngine \<Rightarrow> HistoryEntry list" where
  "getHistory this = history this"

definition getSeed :: "SimulationEngine \<Rightarrow> real option" where
  "getSeed this = seed_config (config (state this))"

definition setInvestments :: "SimulationEngine \<Rightarrow> InvestmentAllocation \<Rightarrow> SimulationEngine" where
  "setInvestments this invest = this\<lparr>state := (state this)\<lparr>investments := invest\<rparr>\<rparr>"

definition setPolicyParams :: "SimulationEngine \<Rightarrow> PartialPolicyParameters \<Rightarrow> SimulationEngine" where
  "setPolicyParams this params =
     (let old = policyParams (state this)
      in this\<lparr>state := (state this)\<lparr>policyParams :=
           \<lparr>masterEnrollment =
              (case masterEnrollment_opt params of Some v \<Rightarrow> v | None \<Rightarrow> masterEnrollment old),
            phdEnrollment =
              (case phdEnrollment_opt params of Some v \<Rightarrow> v | None \<Rightarrow> phdEnrollment old),
            phdToAcademia =
              (case phdToAcademia_opt params of Some v \<Rightarrow> v | None \<Rightarrow> phdToAcademia old),
            populationDeclineRate =
              (case populationDeclineRate_opt params of Some v \<Rightarrow> v | None \<Rightarrow> populationDeclineRate old),
            retirementAgeExtension =
              (case retirementAgeExtension_opt params of Some v \<Rightarrow> v
               | None \<Rightarrow> retirementAgeExtension old)\<rparr>\<rparr>\<rparr>)"

text \<open>\<open>reset()\<close>; were the stored seed \<open>undefined\<close>, the default parameter of the
  \<open>SeededRandom\<close> constructor would take the reading of \<open>Date.now()\<close>, the second argument.\<close>

definition reset :: "SimulationEngine \<Rightarrow> real \<Rightarrow> SimulationEngine" where
  "reset this now =
     (let cohorts = createInitialCohorts;
          cap = calculateNationalCapability cohorts no_options
      in recordHistory
           (this\<lparr>rng := SeededRandom_new
                          (case seed_config (config (state this)) of Some s \<Rightarrow> s | None \<Rightarrow> now),
                 state := (state this)
                   \<lparr>year := 0,
                    entities := cohorts,
                    capability := cap,
                    capabilityNormalized := normalizeToDeviation cap,
                    totalTalent := calculateTotalTalent cohorts,
                    successionScore := calculateSuccessionScore cohorts\<rparr>,
                 history := []\<rparr>))"

definition simulateYear :: "SimulationEngine \<Rightarrow> SimulationEngine" where
  "simulateYear this =
     (let cohorts = entities (state this);
          invest = investments (state this);
          params = policyParams (state this);
          updatedCohorts = applyPopulationDynamics (state this) cohorts params;
          (grownCohorts, r) = applySkillGrowth this updatedCohorts invest;
          decayedCohorts = applySkillDecay grownCohorts;
          transitionedCohorts = applyTransitions decayedCohorts;
          cap = calculateNationalCapability transitionedCohorts no_options
      in recordHistory
           (this\<lparr>rng := r,
                 state := (state this)
                   \<lparr>year := year (state this) + 1,
                    entities := transitionedCohorts,
                    capability := cap,
                    capabilityNormalized := normalizeToDeviation cap,
                    totalTalent := calculateTotalTalent transitionedCohorts,
                    successionScore := calculateSuccessionScore transitionedCohorts\<rparr>\<rparr>))"

definition getResult :: "SimulationEngine \<Rightarrow> SimulationResult" where
  "getResult this =
     (let scores = map totalScore (history this)
      in \<lparr>finalState = getState this,
          history_r = getHistory this,
          statistics =
            \<lparr>avgScore = foldl (\<lambda>a b. a + b) 0 scores / real (length scores),
             minScore = Math_min scores,
             maxScore = Math_max scores,
             scoreGrowth =
               (if length scores > 1 then scores ! (length scores - 1) - scores ! 0 else 0)\<rparr>\<rparr>)"

text \<open>\<open>simulateYears(years)\<close>: \<open>for (let i = 0; i < years; i++) this.simulateYear()\<close>, then
  \<open>getResult()\<close>.\<close>

function simulateYears_loop :: "nat \<Rightarrow> real \<Rightarrow> SimulationEngine \<Rightarrow> SimulationEngine" where
  "simulateYears_loop i years this =
     (if real i < years then simulateYears_loop (Suc i) years (simulateYear this) else this)"
  by pat_completeness auto
termination
  by (relation "measure (\<lambda>(i, years, this). nat \<lceil>years\<rceil> - i)") (auto, linarith)

declare simulateYears_loop.simps [simp del]

definition simulateYears :: "real \<Rightarrow> SimulationEngine \<Rightarrow> SimulationResult \<times> SimulationEngine" where
  "simulateYears years this =
     (let this' = simulateYears_loop 0 years this in (getResult this', this'))"

section \<open>The simulation worker: the Monte Carlo request\<close>

text \<open>Source: \<^verbatim>\<open>src/packages/core/src/io/export.ts\<close>, the part headed "Simulation Web Worker".\<close>

record MonteCarloStats =
  mean_mc :: real
  std_mc :: real
  p5 :: "real option"
  p25 :: "real option"
  p50 :: "real option"
  p75 :: "real option"
  p95 :: "real option"

text \<open>
  The closure \<open>percentile\<close> of \<open>calculateMonteCarloStats\<close>, with the sorted array it captures:
  \<open>sorted[Math.floor((p / 100) * (sorted.length - 1))]\<close>; \<open>None\<close> stands for \<open>undefined\<close>.
\<close>

definition monteCarlo_percentile :: "real list \<Rightarrow> real \<Rightarrow> real option" where
  "monteCarlo_percentile sortedArr p =
     (let idx = \<lfloor>(p / 100) * (real (length sortedArr) - 1)\<rfloor> in index_js sortedArr idx)"

definition calculateMonteCarloStats :: "SimulationResult list \<Rightarrow> MonteCarloStats" where
  "calculateMonteCarloStats results =
     (let scores = map (\<lambda>r. avgScore (statistics r)) results;
          sortedArr = sort scores;
          percentile = monteCarlo_percentile sortedArr
      in \<lparr>mean_mc = foldl (\<lambda>a b. a + b) 0 scores / real (length scores),
          std_mc = sqrt (foldl (\<lambda>sum s. sum + (s - foldl (\<lambda>a b. a + b) 0 scores / real (length scores)) ^ 2)
                           0 scores / real (length scores)),
          p5 = percentile 5,
          p25 = percentile 25,
          p50 = percentile 50,
          p75 = percentile 75,
          p95 = percentile 95\<rparr>)"

text \<open>The payload of a worker message and the messages the worker posts back.\<close>

record WorkerPayload =
  config_p :: "PartialSimulationConfig option"
  years_p :: "real option"
  iterations_p :: "real option"
  investments_p :: "InvestmentAllocation option"
  policyParams_p :: "PartialPolicyParameters option"

datatype WorkerResponse =
    PROGRESS string real real
  | RESULT_MONTE_CARLO string "SimulationResult option" MonteCarloStats

text \<open>
  The engine of run \<open>i\<close> of the \<open>MONTE_CARLO\<close> case, constructed and configured:
  \<open>new SimulationEngine({...payload.config, seed: (payload.config?.seed ?? 12345) + i,
  enableStochasticity: true})\<close>, then the optional \<open>setInvestments\<close> and \<open>setPolicyParams\<close>.
\<close>

definition monteCarlo_baseSeed :: "WorkerPayload \<Rightarrow> real" where
  "monteCarlo_baseSeed payload =
     (case config_p payload of
        None \<Rightarrow> 12345
      | Some c \<Rightarrow> (case seed_opt c of Some s \<Rightarrow> s | None \<Rightarrow> 12345))"

definition monteCarlo_engine :: "WorkerPayload \<Rightarrow> real \<Rightarrow> nat \<Rightarrow> SimulationEngine" where
  "monteCarlo_engine payload now i =
     (let eng = SimulationEngine_new
                  \<lparr>mode_opt = (case config_p payload of Some c \<Rightarrow> mode_opt c | None \<Rightarrow> None),
                   seed_opt = Some (monteCarlo_baseSeed payload + real i),
                   baseYear_opt = (case config_p payload of Some c \<Rightarrow> baseYear_opt c | None \<Rightarrow> None),
                   enableStochasticity_opt = Some True\<rparr> now;
          eng1 = (case investments_p payload of Some ia \<Rightarrow> setInvestments eng ia | None \<Rightarrow> eng);
          eng2 = (case policyParams_p payload of Some pp \<Rightarrow> setPolicyParams eng1 pp | None \<Rightarrow> eng1)
      in eng2)"

text \<open>The body of one iteration up to \<open>results.push(eng.getResult())\<close>.\<close>

definition monteCarlo_run :: "WorkerPayload \<Rightarrow> real \<Rightarrow> real \<Rightarrow> nat \<Rightarrow> SimulationResult" where
  "monteCarlo_run payload now years i =
     getResult (snd (simulateYears years (monteCarlo_engine payload now i)))"

text \<open>
  \<open>for (let i = 0; i < iterations; i++) { ... }\<close>: the loop state is the array \<open>results\<close> and
  the list of messages posted so far.
\<close>

function monteCarlo_loop ::
  "WorkerPayload \<Rightarrow> string \<Rightarrow> real \<Rightarrow> real \<Rightarrow> real \<Rightarrow> nat \<Rightarrow>
   SimulationResult list \<times> WorkerResponse list \<Rightarrow> SimulationResult list \<times> WorkerResponse list" where
  "monteCarlo_loop payload msg_id now iterations years i (results, posted) =
     (if real i < iterations then
        monteCarlo_loop payload msg_id now iterations years (Suc i)
          (results @ [monteCarlo_run payload now years i],
           if i mod 10 = 0 \<or> real i = iterations - 1
           then posted @ [PROGRESS msg_id (real i + 1) iterations] else posted)
      else (results, posted))"
  by pat_completeness auto
termination
  by (relation "measure (\<lambda>(payload, msg_id, now, iterations, years, i, acc). nat \<lceil>iterations\<rceil> - i)")
    (auto, linarith)

declare monteCarlo_loop.simps [simp del]

definition onmessage_MONTE_CARLO :: "WorkerPayload \<Rightarrow> string \<Rightarrow> real \<Rightarrow> WorkerResponse list" where
  "onmessage_MONTE_CARLO payload msg_id now =
     (let iterations = (case iterations_p payload of Some k \<Rightarrow> k | None \<Rightarrow> 100);
          years = (case years_p payload of Some y \<Rightarrow> y | None \<Rightarrow> 30);
          (results, posted) = monteCarlo_loop payload msg_id now iterations years 0 ([], []);
          stats = calculateMonteCarloStats results
      in posted @ [RESULT_MONTE_CARLO msg_id (case results of [] \<Rightarrow> None | r # _ \<Rightarrow> Some r) stats])"

section \<open>Object identity: what \<open>getState()\<close> and \<open>getHistory()\<close> share with the engine\<close>

text \<open>
  The engine's fields \<open>state\<close> and \<open>history\<close> hold references to objects, and so do the
  object-valued fields of the state object and the elements of the arrays.  The store maps
  references to objects.  A state object keeps its numbers by value and its objects and
  arrays by reference; an array is a list of references; a cohort, a history entry, a
  capability vector, an investment allocation, the policy parameters and the configuration
  are each one object of the store (what lies below them is kept inside the cell, so a
  change anywhere below a cohort is a change of the cohort's cell).
\<close>

type_synonym ref = nat

record StateObject =
  year_o :: real
  entities_o :: ref
  capability_o :: ref
  capabilityNormalized_o :: ref
  investments_o :: ref
  policyParams_o :: ref
  totalTalent_o :: real
  successionScore_o :: real
  config_o :: ref

datatype cell =
    StateCell StateObject
  | ArrayCell "ref list"
  | CohortCell Cohort
  | HistoryCell HistoryEntry
  | VectorCell SkillVector
  | InvestmentCell InvestmentAllocation
  | PolicyCell PolicyParameters
  | ConfigCell SimulationConfig

type_synonym store = "cell list"

definition lookup :: "store \<Rightarrow> ref \<Rightarrow> cell option" where
  "lookup h r = (if r < length h then Some (h ! r) else None)"

text \<open>A new object gets the next unused reference.\<close>

definition alloc :: "store \<Rightarrow> cell \<Rightarrow> ref \<times> store" where
  "alloc h c = (length h, h @ [c])"

definition alloc_all :: "store \<Rightarrow> cell list \<Rightarrow> ref list \<times> store" where
  "alloc_all h cs = ([length h ..< length h + length cs], h @ cs)"

text \<open>An assignment to an object replaces its cell.\<close>

definition assign :: "store \<Rightarrow> ref \<Rightarrow> cell \<Rightarrow> store" where
  "assign h r c = h[r := c]"

text \<open>The engine object: its fields \<open>state\<close> and \<open>history\<close> as references.\<close>

record EngineRefs =
  this_state :: ref
  this_history :: ref

text \<open>
  The objects of an engine value laid out in a store: one object for each cohort and the
  \<open>entities\<close> array of their references, one object for each object-valued field of the
  state, the state object, one object for each history entry and the \<open>history\<close> array.
\<close>

definition store_state :: "store \<Rightarrow> SimulationState \<Rightarrow> ref \<times> store" where
  "store_state h s =
     (let (cohortRefs, h1) = alloc_all h (map CohortCell (entities s));
          (entitiesRef, h2) = alloc h1 (ArrayCell cohortRefs);
          (capRef, h3) = alloc h2 (VectorCell (capability s));
          (normRef, h4) = alloc h3 (VectorCell (capabilityNormalized s));
          (invRef, h5) = alloc h4 (InvestmentCell (investments s));
          (polRef, h6) = alloc h5 (PolicyCell (policyParams s));
          (cfgRef, h7) = alloc h6 (ConfigCell (config s))
      in alloc h7
           (StateCell
              \<lparr>year_o = year s, entities_o = entitiesRef, capability_o = capRef,
               capabilityNormalized_o = normRef, investments_o = invRef, policyParams_o = polRef,
               totalTalent_o = totalTalent s, successionScore_o = successionScore s,
               config_o = cfgRef\<rparr>))"

definition store_engine :: "store \<Rightarrow> SimulationEngine \<Rightarrow> EngineRefs \<times> store" where
  "store_engine h this =
     (let (stateRef, h1) = store_state h (state this);
          (entryRefs, h2) = alloc_all h1 (map HistoryCell (history this));
          (historyRef, h3) = alloc h2 (ArrayCell entryRefs)
      in (\<lparr>this_state = stateRef, this_history = historyRef\<rparr>, h3))"

text \<open>Reading a value back through the references; \<open>None\<close> when a reference does not lead
  to an object of the expected kind.\<close>

fun read_all :: "(ref \<Rightarrow> 'a option) \<Rightarrow> ref list \<Rightarrow> 'a list option" where
  "read_all f [] = Some []"
| "read_all f (r # rs) =
     (case f r of
        None \<Rightarrow> None
      | Some x \<Rightarrow> (case read_all f rs of None \<Rightarrow> None | Some xs \<Rightarrow> Some (x # xs)))"

definition read_cohort :: "store \<Rightarrow> ref \<Rightarrow> Cohort option" where
  "read_cohort h r = (case lookup h r of Some (CohortCell c) \<Rightarrow> Some c | _ \<Rightarrow> None)"

definition read_entry :: "store \<Rightarrow> ref \<Rightarrow> HistoryEntry option" where
  "read_entry h r = (case lookup h r of Some (HistoryCell e) \<Rightarrow> Some e | _ \<Rightarrow> None)"

definition read_cohorts :: "store \<Rightarrow> ref \<Rightarrow> Cohort list option" where
  "read_cohorts h r =
     (case lookup h r of Some (ArrayCell rs) \<Rightarrow> read_all (read_cohort h) rs | _ \<Rightarrow> None)"

definition read_history :: "store \<Rightarrow> ref \<Rightarrow> HistoryEntry list option" where
  "read_history h r =
     (case lookup h r of Some (ArrayCell rs) \<Rightarrow> read_all (read_entry h) rs | _ \<Rightarrow> None)"

definition read_state :: "store \<Rightarrow> ref \<Rightarrow> SimulationState option" where
  "read_state h r =
     (case lookup h r of
        Some (StateCell so) \<Rightarrow>
          (case (read_cohorts h (entities_o so), lookup h (capability_o so),
                 lookup h (capabilityNormalized_o so), lookup h (investments_o so),
                 lookup h (policyParams_o so), lookup h (config_o so)) of
             (Some es, Some (VectorCell cap), Some (VectorCell nrm), Some (InvestmentCell ia),
              Some (PolicyCell pol), Some (ConfigCell cfg)) \<Rightarrow>
               Some \<lparr>year = year_o so, entities = es, capability = cap,
                     capabilityNormalized = nrm, investments = ia, policyParams = pol,
                     totalTalent = totalTalent_o so, successionScore = successionScore_o so,
                     config = cfg\<rparr>
           | _ \<Rightarrow> None)
      | _ \<Rightarrow> None)"

text \<open>\<open>getState()\<close>: \<open>return { ...this.state }\<close>, a new object with the fields of the state
  object.  \<open>getHistory()\<close>: \<open>return [...this.history]\<close>, a new array with the elements of the
  history array.\<close>

definition getState_store :: "store \<Rightarrow> EngineRefs \<Rightarrow> (ref \<times> store) option" where
  "getState_store h this =
     (case lookup h (this_state this) of
        Some (StateCell so) \<Rightarrow> Some (alloc h (StateCell so))
      | _ \<Rightarrow> None)"

definition getHistory_store :: "store \<Rightarrow> EngineRefs \<Rightarrow> (ref \<times> store) option" where
  "getHistory_store h this =
     (case lookup h (this_history this) of
        Some (ArrayCell rs) \<Rightarrow> Some (alloc h (ArrayCell rs))
      | _ \<Rightarrow> None)"

text \<open>Caller code on a returned snapshot: \<open>snapshot.entities[0].count = v\<close> and
  \<open>entries[0].totalTalent = v\<close>.\<close>

definition set_first_cohort_count :: "store \<Rightarrow> ref \<Rightarrow> real \<Rightarrow> store" where
  "set_first_cohort_count h snapshot v =
     (case lookup h snapshot of
        Some (StateCell so) \<Rightarrow>
          (case lookup h (entities_o so) of
             Some (ArrayCell (c # cs)) \<Rightarrow>
               (case lookup h c of
                  Some (CohortCell cohort) \<Rightarrow> assign h c (CohortCell (cohort\<lparr>count := v\<rparr>))
                | _ \<Rightarrow> h)
           | _ \<Rightarrow> h)
      | _ \<Rightarrow> h)"

definition set_first_entry_totalTalent :: "store \<Rightarrow> ref \<Rightarrow> real \<Rightarrow> store" where
  "set_first_entry_totalTalent h entries v =
     (case lookup h entries of
        Some (ArrayCell (r # rs)) \<Rightarrow>
          (case lookup h r of
             Some (HistoryCell e) \<Rightarrow> assign h r (HistoryCell (e\<lparr>totalTalent_h := v\<rparr>))
           | _ \<Rightarrow> h)
      | _ \<Rightarrow> h)"

section \<open>Notions used in the statements\<close>

text \<open>\<open>new SimulationEngine()\<close>: the configuration object with no field.\<close>

definition empty_config :: PartialSimulationConfig where
  "empty_config =
     \<lparr>mode_opt = None, seed_opt = None, baseYear_opt = None, enableStochasticity_opt = None\<rparr>"




text \<open>
  From the specification (not from the source): the tenure score as the count-weighted
  average of the tenure margins, times 100.
\<close>

definition weighted_tenureScore_spec :: "Cohort list \<Rightarrow> real" where
  "weighted_tenureScore_spec sectorC =
     sum_list (map (\<lambda>c. (maxTenure c - avgTenure c) / maxTenure c * count c) sectorC) /
     sum_list (map count sectorC) * 100"

section \<open>Properties\<close>

subsection \<open>The random source\<close>

lemma SeededRandom_next_range:
  "0 \<le> fst (SeededRandom_next r) \<and> fst (SeededRandom_next r) < 1"
proof -
  obtain w :: "32 word" where w: "fst (SeededRandom_next r) = real (unat w) / 4294967296"
    by (simp add: SeededRandom_next_def Let_def)
  have "unat w < 4294967296"
    using unsigned_less [of w, where ?'a = nat] by simp
  then have "real (unat w) < 4294967296"
    by linarith
  then have "real (unat w) / 4294967296 < 1"
    by simp
  moreover have "0 \<le> real (unat w) / 4294967296"
    by (rule divide_nonneg_pos [OF of_nat_0_le_iff]) simp
  ultimately show ?thesis
    unfolding w by (rule conjI [rotated])
qed

lemma interleaved_calls_eq:
  "interleaved_calls cs (a, b) =
     (next_sequence (length (filter (\<lambda>c. c) cs)) a, next_sequence (length (filter (\<lambda>c. \<not> c) cs)) b)"
proof (induction cs arbitrary: a b)
  case Nil
  then show ?case by simp
next
  case (Cons c cs)
  then show ?case by (cases c) (simp_all add: case_prod_beta)
qed

lemma next_sequence_take: "take n (next_sequence (n + m) r) = next_sequence n r"
  by (induction n arbitrary: r) simp_all

text \<open>
  Claim C1.  Two instances constructed from the same seed return the same sequence of
  \<open>next()\<close> values: however one caller interleaves its calls to the two instances, the values
  one instance has returned are a prefix of the values of the other (each sequence is the
  one that a single instance with that seed returns).  Every value \<open>next()\<close> returns, in any
  state of an instance, lies in the half-open interval from 0 to 1.
\<close>

theorem SeededRandom_deterministic_unit_interval:
  "(let (xs, ys) = interleaved_calls cs (SeededRandom_new s, SeededRandom_new s)
    in xs = next_sequence (length xs) (SeededRandom_new s) \<and>
       ys = next_sequence (length ys) (SeededRandom_new s) \<and>
       take (length ys) xs = take (length xs) ys) \<and>
   0 \<le> fst (SeededRandom_next r) \<and> fst (SeededRandom_next r) < 1"
proof -
  have len: "length (next_sequence n a) = n" for n a
    by (induction n arbitrary: a) simp_all
  have pre: "take k (next_sequence n a) = next_sequence (min k n) a" for k n a
  proof (cases "k \<le> n")
    case True
    then show ?thesis
      using next_sequence_take [of k "n - k" a] by (simp add: min_def)
  next
    case False
    then show ?thesis by (simp add: len min_def)
  qed
  show ?thesis
    using SeededRandom_next_range [of r]
    by (simp add: interleaved_calls_eq len pre min.commute)
qed

subsection \<open>The initial cohorts\<close>

lemma foldl_add_sum_list: "foldl (\<lambda>a b. a + b) a xs = a + sum_list (xs :: real list)"
  by (induction xs arbitrary: a) simp_all

lemma foldl_count_sum_list: "foldl (\<lambda>sum c. sum + count c) a cs = a + sum_list (map count cs)"
  by (induction cs arbitrary: a) simp_all

lemma history_SimulationEngine_new:
  "history (SimulationEngine_new cfg now) =
     [\<lparr>year_h = 0,
       capability_h = calculateNationalCapability createInitialCohorts no_options,
       capabilityNormalized_h =
         normalizeToDeviation (calculateNationalCapability createInitialCohorts no_options),
       totalScore = calculateTotalScore (calculateNationalCapability createInitialCohorts no_options),
       successionScore_h = calculateSuccessionScore createInitialCohorts,
       totalTalent_h = calculateTotalTalent createInitialCohorts,
       investments_h = DEFAULT_INVESTMENTS\<rparr>]"
  by (simp add: SimulationEngine_new_def recordHistory_def Let_def)

lemma entities_SimulationEngine_new:
  "entities (state (SimulationEngine_new cfg now)) = createInitialCohorts"
  by (simp add: SimulationEngine_new_def recordHistory_def Let_def)

lemma calculateTotalTalent_initial: "calculateTotalTalent createInitialCohorts = 538000"
  by (simp add: createInitialCohorts_def calculateTotalTalent_def)

text \<open>
  Claim C3, as stated, fails: the registry of \<open>createInitialCohorts()\<close> does not have 14
  cohorts and its counts do not add up to 460,000.
\<close>

theorem createInitialCohorts_not_14_nor_460000:
  "length createInitialCohorts \<noteq> 14 \<and> calculateTotalTalent createInitialCohorts \<noteq> 460000"
  by (simp add: calculateTotalTalent_initial) (simp add: createInitialCohorts_def)

text \<open>
  Claim C3, amended.  The registry has exactly 15 cohorts: 6 of the university sector and 3
  each of industry, government and research.  Their counts add up to 538,000, the engine
  starts from this registry, and its year-0 history entry reports that total as
  \<open>totalTalent\<close>.
\<close>

theorem createInitialCohorts_15_cohorts_538000:
  "length createInitialCohorts = 15 \<and>
   map (\<lambda>s. length (filter (\<lambda>c. sector c = s) createInitialCohorts)) SECTOR_KEYS = [6, 3, 3, 3] \<and>
   sum_list (map count createInitialCohorts) = 538000 \<and>
   entities (state (SimulationEngine_new cfg now)) = createInitialCohorts \<and>
   map year_h (history (SimulationEngine_new cfg now)) = [0] \<and>
   map totalTalent_h (history (SimulationEngine_new cfg now)) = [538000]"
proof -
  have "length createInitialCohorts = 15"
    by (simp add: createInitialCohorts_def)
  moreover have
    "map (\<lambda>s. length (filter (\<lambda>c. sector c = s) createInitialCohorts)) SECTOR_KEYS = [6, 3, 3, 3]"
    by (simp add: createInitialCohorts_def SECTOR_KEYS_def)
  moreover have "sum_list (map count createInitialCohorts) = 538000"
    by (simp add: createInitialCohorts_def)
  ultimately show ?thesis
    by (simp add: history_SimulationEngine_new entities_SimulationEngine_new
        calculateTotalTalent_initial)
qed

subsection \<open>CES aggregation of a single cohort\<close>





subsection \<open>Deviation scores\<close>



subsection \<open>The simulation loop and the history\<close>

lemma simulateYears_loop_funpow:
  "simulateYears_loop i (real n) this = (simulateYear ^^ (n - i)) this"
proof (induction "n - i" arbitrary: i this)
  case 0
  then show ?case by (subst simulateYears_loop.simps) simp
next
  case (Suc k)
  from Suc.hyps(2) have lt: "i < n" and k: "k = n - Suc i" by simp_all
  have "simulateYears_loop i (real n) this = simulateYears_loop (Suc i) (real n) (simulateYear this)"
    using lt by (subst simulateYears_loop.simps) simp
  also have "\<dots> = (simulateYear ^^ k) (simulateYear this)"
    using Suc.hyps(1) [OF k] k by simp
  also have "\<dots> = (simulateYear ^^ Suc k) this"
    by (simp only: funpow_Suc_right o_apply)
  finally show ?case
    by (simp only: Suc.hyps(2))
qed

lemma state_recordHistory [simp]: "state (recordHistory this) = state this"
  by (simp add: recordHistory_def)

lemma rng_recordHistory [simp]: "rng (recordHistory this) = rng this"
  by (simp add: recordHistory_def)

lemma year_simulateYear: "year (state (simulateYear this)) = year (state this) + 1"
  by (simp add: simulateYear_def Let_def case_prod_beta)



lemma investments_simulateYear: "investments (state (simulateYear this)) = investments (state this)"
  by (simp add: simulateYear_def Let_def case_prod_beta)

lemma years_history_simulateYear:
  "map year_h (history (simulateYear this)) = map year_h (history this) @ [year (state this) + 1]"
  by (simp add: simulateYear_def Let_def case_prod_beta recordHistory_def)

lemma year_funpow: "year (state ((simulateYear ^^ n) this)) = year (state this) + real n"
  by (induction n) (simp_all add: year_simulateYear)

lemma years_history_fresh:
  assumes "year (state this) = 0" and "map year_h (history this) = [0]"
  shows "map year_h (history ((simulateYear ^^ n) this)) = map real [0..<Suc n]"
proof (induction n)
  case 0
  show ?case using assms(2) by simp
next
  case (Suc n)
  have "year (state ((simulateYear ^^ n) this)) = real n"
    using assms(1) by (simp add: year_funpow)
  with Suc show ?case
    by (simp add: years_history_simulateYear)
qed

text \<open>
  Claim C4.  For every \<open>n \<ge> 0\<close>, after \<open>simulateYears(n)\<close> on a freshly constructed engine
  \<open>getHistory()\<close> has exactly \<open>n + 1\<close> entries, whose \<open>year\<close> fields are \<open>0, 1, ..., n\<close> in
  order; the result returned by \<open>simulateYears\<close> carries the same history.
\<close>

theorem simulateYears_history_years:
  "map year_h (getHistory (snd (simulateYears (real n) (SimulationEngine_new cfg now)))) = map real [0..<n + 1] \<and>
   length (getHistory (snd (simulateYears (real n) (SimulationEngine_new cfg now)))) = n + 1 \<and>
   history_r (fst (simulateYears (real n) (SimulationEngine_new cfg now))) =
     getHistory (snd (simulateYears (real n) (SimulationEngine_new cfg now)))"
proof -
  let ?init = "SimulationEngine_new cfg now"
  have y0: "year (state ?init) = 0"
    by (simp add: SimulationEngine_new_def Let_def)
  have h0: "map year_h (history ?init) = [0]"
    by (simp add: SimulationEngine_new_def Let_def recordHistory_def)
  have ys: "map year_h (history ((simulateYear ^^ n) ?init)) = map real [0..<Suc n]"
    by (rule years_history_fresh [OF y0 h0])
  have "length (map year_h (history ((simulateYear ^^ n) ?init))) = Suc n"
    unfolding ys by simp
  then have len: "length (history ((simulateYear ^^ n) ?init)) = Suc n"
    by simp
  show ?thesis
    using ys len
    by (simp add: simulateYears_def simulateYears_loop_funpow getHistory_def getResult_def Let_def)
qed


subsection \<open>Cohort counts over a simulated year\<close>
























subsection \<open>The population decline factor\<close>





subsection \<open>The tenure component of the succession score\<close>

lemma groupBySector_foldl:
  "foldl (\<lambda>sectorCohorts cohort.
            sectorCohorts(sector cohort := sectorCohorts (sector cohort) @ [cohort])) g cs =
     (\<lambda>s. g s @ filter (\<lambda>c. sector c = s) cs)"
  by (induction cs arbitrary: g) (auto simp: fun_eq_iff)

lemma groupBySector_filter: "groupBySector cohorts s = filter (\<lambda>c. sector c = s) cohorts"
  by (simp add: groupBySector_def groupBySector_foldl)

lemma tenureScore_mean:
  "tenureScore sectorC =
     sum_list (map (\<lambda>c. (maxTenure c - avgTenure c) / maxTenure c) sectorC) / real (length sectorC) * 100"
  by (simp add: tenureScore_def Let_def foldl_add_sum_list)

text \<open>
  Claim C8, amended.  For every cohort set and every sector with at least one member cohort,
  the cohorts that \<open>calculateSuccessionScore\<close> groups under the sector are the members in
  array order, and the tenure component of the sector's score is the unweighted arithmetic
  mean of \<open>(maxTenure - avgTenure) / maxTenure\<close> over them, times 100 (the counts do not enter);
  the succession score is the mean over the four sectors of
  \<open>0.3 * age + 0.4 * tenure + 0.3 * mentor\<close>, with 0 for a sector without members.
\<close>

theorem tenureScore_unweighted_mean:
  assumes "filter (\<lambda>c. sector c = s) cohorts \<noteq> []"
  shows "groupBySector cohorts s = filter (\<lambda>c. sector c = s) cohorts \<and>
   tenureScore (groupBySector cohorts s) =
     sum_list (map (\<lambda>c. (maxTenure c - avgTenure c) / maxTenure c) (filter (\<lambda>c. sector c = s) cohorts)) /
     real (length (filter (\<lambda>c. sector c = s) cohorts)) * 100 \<and>
   calculateSuccessionScore cohorts =
     sum_list (map (\<lambda>s. let sectorC = groupBySector cohorts s
                          in if sectorC = [] then 0
                             else ageDiversityScore sectorC * 0.3 + tenureScore sectorC * 0.4 +
                                  mentorScore sectorC * 0.3) SECTOR_KEYS) / 4"
  by (simp add: calculateSuccessionScore_def Let_def groupBySector_filter foldl_add_sum_list
      tenureScore_mean SECTOR_KEYS_def)

theorem tenureScore_unweighted_mean_witness:
  "filter (\<lambda>c. sector c = industry) createInitialCohorts \<noteq> [] \<and>
   map id_cohort (groupBySector createInitialCohorts industry) =
     [''ind_junior'', ''ind_mid'', ''ind_senior''] \<and>
   tenureScore (groupBySector createInitialCohorts industry) = ((5 / 8 + 1 / 2 + 3 / 7) / 3) * 100"
proof -
  have ne: "filter (\<lambda>c. sector c = industry) createInitialCohorts \<noteq> []"
    by (simp add: createInitialCohorts_def)
  show ?thesis
    using ne tenureScore_unweighted_mean [OF ne]
    by (simp add: groupBySector_filter tenureScore_mean createInitialCohorts_def)
qed

text \<open>
  Claim C8, as stated, fails on the initial cohorts: for the industry sector the tenure
  component is \<open>725 / 14\<close> (about 51.8), while the count-weighted average of the margins times
  100 is \<open>4625 / 84\<close> (about 55.1).
\<close>

theorem tenureScore_not_count_weighted:
  "filter (\<lambda>c. sector c = industry) createInitialCohorts \<noteq> [] \<and>
   tenureScore (groupBySector createInitialCohorts industry) = 725 / 14 \<and>
   weighted_tenureScore_spec (groupBySector createInitialCohorts industry) = 4625 / 84 \<and>
   tenureScore (groupBySector createInitialCohorts industry) \<noteq>
   weighted_tenureScore_spec (groupBySector createInitialCohorts industry)"
  by (simp add: groupBySector_filter createInitialCohorts_def tenureScore_mean
      weighted_tenureScore_spec_def)

subsection \<open>Monte Carlo runs and their percentiles\<close>

lemma monteCarlo_loop_results:
  "fst (monteCarlo_loop payload msg_id now (real k) years i (results, posted)) =
     results @ map (monteCarlo_run payload now years) [i..<k]"
proof (induction "k - i" arbitrary: i results posted)
  case 0
  then show ?case by (subst monteCarlo_loop.simps) simp
next
  case (Suc d)
  from Suc.hyps(2) have lt: "i < k" and d: "d = k - Suc i" by simp_all
  have "[i..<k] = i # [Suc i..<k]"
    using lt by (simp add: upt_conv_Cons)
  then show ?case
    using lt Suc.hyps(1) [OF d] by (subst monteCarlo_loop.simps) simp
qed

lemma monteCarlo_engine_seed:
  "rng (monteCarlo_engine payload now i) = SeededRandom_new (monteCarlo_baseSeed payload + real i) \<and>
   seed_config (config (state (monteCarlo_engine payload now i))) =
     Some (monteCarlo_baseSeed payload + real i) \<and>
   enableStochasticity (config (state (monteCarlo_engine payload now i)))"
  by (simp add: monteCarlo_engine_def SimulationEngine_new_def setInvestments_def
      setPolicyParams_def Let_def split: option.split)

lemma index_js_middle: "length xs = 2 * m + 1 \<Longrightarrow> index_js xs (int m) = Some (xs ! m)"
  by (simp add: index_js_def)

lemma monteCarlo_percentile_median:
  assumes "length xs = 2 * m + 1"
  shows "monteCarlo_percentile xs 50 = Some (xs ! m)"
proof -
  have "\<lfloor>(50 / 100) * (real (length xs) - 1)\<rfloor> = int m"
    using assms by simp
  then show ?thesis
    using index_js_middle [OF assms] by (simp add: monteCarlo_percentile_def)
qed

text \<open>
  Claim C9, amended.  The Monte Carlo loop with \<open>iterations = k\<close> produces exactly \<open>k\<close> per-run
  results, the result of run \<open>i\<close> coming from its own engine, seeded \<open>baseSeed + i\<close> with
  stochasticity enabled.  The reported percentiles 5/25/50/75/95 of the per-run average
  scores are the elements of the sorted sample at index \<open>floor((p / 100) * (n - 1))\<close>, with no
  interpolation; in particular \<open>percentile(50)\<close> of a sample with odd cardinality is the middle
  sorted element.
\<close>

theorem monteCarlo_samples_and_percentiles:
  "fst (monteCarlo_loop payload msg_id now (real k) years 0 ([], [])) =
     map (monteCarlo_run payload now years) [0..<k] \<and>
   length (fst (monteCarlo_loop payload msg_id now (real k) years 0 ([], []))) = k \<and>
   rng (monteCarlo_engine payload now i) = SeededRandom_new (monteCarlo_baseSeed payload + real i) \<and>
   enableStochasticity (config (state (monteCarlo_engine payload now i))) \<and>
   (let sortedArr = sort (map (\<lambda>r. avgScore (statistics r)) results);
        n = real (length results);
        stats = calculateMonteCarloStats results
    in p5 stats = index_js sortedArr \<lfloor>(5 / 100) * (n - 1)\<rfloor> \<and>
       p25 stats = index_js sortedArr \<lfloor>(25 / 100) * (n - 1)\<rfloor> \<and>
       p50 stats = index_js sortedArr \<lfloor>(50 / 100) * (n - 1)\<rfloor> \<and>
       p75 stats = index_js sortedArr \<lfloor>(75 / 100) * (n - 1)\<rfloor> \<and>
       p95 stats = index_js sortedArr \<lfloor>(95 / 100) * (n - 1)\<rfloor> \<and>
       (length results = 2 * m + 1 \<longrightarrow> p50 stats = Some (sortedArr ! m)))"
proof -
  have "length results = 2 * m + 1 \<Longrightarrow>
      monteCarlo_percentile (sort (map (\<lambda>r. avgScore (statistics r)) results)) 50 =
      Some (sort (map (\<lambda>r. avgScore (statistics r)) results) ! m)"
    by (rule monteCarlo_percentile_median) simp
  then have "length results = 2 * m + 1 \<longrightarrow>
      p50 (calculateMonteCarloStats results) = Some (sort (map (\<lambda>r. avgScore (statistics r)) results) ! m)"
    by (simp add: calculateMonteCarloStats_def Let_def)
  moreover have "p5 (calculateMonteCarloStats results) =
      index_js (sort (map (\<lambda>r. avgScore (statistics r)) results)) \<lfloor>(5 / 100) * (real (length results) - 1)\<rfloor>"
    "p25 (calculateMonteCarloStats results) =
      index_js (sort (map (\<lambda>r. avgScore (statistics r)) results)) \<lfloor>(25 / 100) * (real (length results) - 1)\<rfloor>"
    "p50 (calculateMonteCarloStats results) =
      index_js (sort (map (\<lambda>r. avgScore (statistics r)) results)) \<lfloor>(50 / 100) * (real (length results) - 1)\<rfloor>"
    "p75 (calculateMonteCarloStats results) =
      index_js (sort (map (\<lambda>r. avgScore (statistics r)) results)) \<lfloor>(75 / 100) * (real (length results) - 1)\<rfloor>"
    "p95 (calculateMonteCarloStats results) =
      index_js (sort (map (\<lambda>r. avgScore (statistics r)) results)) \<lfloor>(95 / 100) * (real (length results) - 1)\<rfloor>"
    by (simp_all add: calculateMonteCarloStats_def monteCarlo_percentile_def Let_def)
  moreover have "fst (monteCarlo_loop payload msg_id now (real k) years 0 ([], [])) =
     map (monteCarlo_run payload now years) [0..<k]"
    by (simp add: monteCarlo_loop_results)
  ultimately show ?thesis
    using monteCarlo_engine_seed [of payload now i] by (simp only: Let_def length_map length_upt) simp
qed


text \<open>
  Claim C9, as stated, fails: for two runs with average scores 60 and 50 the reported
  \<open>p50\<close> is 50, while linear interpolation on the sorted sample (the \<open>percentile\<close> of
  \<open>summarize\<close>) gives 55.
\<close>

theorem monteCarlo_percentile_not_interpolated:
  "p50 (calculateMonteCarloStats
          (map (\<lambda>a. (getResult (SimulationEngine_new empty_config 0))
                      \<lparr>statistics := \<lparr>avgScore = a, minScore = a, maxScore = a, scoreGrowth = 0\<rparr>\<rparr>)
               [60, 50])) = Some 50 \<and>
   summarize_percentile (sort [60, 50]) 50 = Some 55"
proof -
  have "\<lfloor>1 / 2 :: real\<rfloor> = 0" "\<lceil>1 / 2 :: real\<rceil> = 1"
    by (simp_all add: floor_eq_iff ceiling_eq_iff)
  then show ?thesis
    by (simp add: calculateMonteCarloStats_def monteCarlo_percentile_def summarize_percentile_def
        index_js_def Let_def)
qed

theorem monteCarlo_samples_and_percentiles_witness:
  "length (fst (monteCarlo_loop
       \<lparr>config_p = None, years_p = None, iterations_p = None, investments_p = None,
        policyParams_p = None\<rparr> ''mc'' 0 3 30 0 ([], []))) = 3 \<and>
   rng (monteCarlo_engine
       \<lparr>config_p = None, years_p = None, iterations_p = None, investments_p = None,
        policyParams_p = None\<rparr> 0 2) = SeededRandom_new 12347 \<and>
   length (map (\<lambda>a. (getResult (SimulationEngine_new empty_config 0))
                      \<lparr>statistics := \<lparr>avgScore = a, minScore = a, maxScore = a, scoreGrowth = 0\<rparr>\<rparr>)
               [53, 51, 52 :: real]) = 2 * 1 + 1 \<and>
   p50 (calculateMonteCarloStats
          (map (\<lambda>a. (getResult (SimulationEngine_new empty_config 0))
                      \<lparr>statistics := \<lparr>avgScore = a, minScore = a, maxScore = a, scoreGrowth = 0\<rparr>\<rparr>)
               [53, 51, 52])) = Some 52"
  using monteCarlo_samples_and_percentiles [of "\<lparr>config_p = None, years_p = None, iterations_p = None, investments_p = None,
        policyParams_p = None\<rparr>" "''mc''" 0 3 30 2
      "map (\<lambda>a. (getResult (SimulationEngine_new empty_config 0))
                      \<lparr>statistics := \<lparr>avgScore = a, minScore = a, maxScore = a, scoreGrowth = 0\<rparr>\<rparr>)
               [53, 51, 52]" 1]
  by (simp add: monteCarlo_baseSeed_def index_js_def Let_def)


subsection \<open>Snapshots and the objects they share with the engine\<close>

lemma lookup_Some_less: "lookup h r = Some c \<Longrightarrow> r < length h"
  by (simp add: lookup_def split: if_splits)

lemma lookup_frame:
  assumes "\<forall>i<length h. lookup h' i = lookup h i" and "lookup h r = Some c"
  shows "lookup h' r = Some c"
  using assms lookup_Some_less [OF assms(2)] by simp

lemma read_cohort_frame:
  assumes "\<forall>i<length h. lookup h' i = lookup h i" and "read_cohort h r = Some c"
  shows "read_cohort h' r = Some c"
proof -
  from assms(2) have "lookup h r = Some (CohortCell c)"
    by (simp add: read_cohort_def split: option.splits cell.splits)
  from lookup_frame [OF assms(1) this] show ?thesis
    by (simp add: read_cohort_def)
qed

lemma read_entry_frame:
  assumes "\<forall>i<length h. lookup h' i = lookup h i" and "read_entry h r = Some e"
  shows "read_entry h' r = Some e"
proof -
  from assms(2) have "lookup h r = Some (HistoryCell e)"
    by (simp add: read_entry_def split: option.splits cell.splits)
  from lookup_frame [OF assms(1) this] show ?thesis
    by (simp add: read_entry_def)
qed

lemma read_all_frame:
  assumes "\<And>r v. f r = Some v \<Longrightarrow> g r = Some v" and "read_all f rs = Some vs"
  shows "read_all g rs = Some vs"
  using assms(2)
proof (induction rs arbitrary: vs)
  case Nil
  then show ?case by simp
next
  case (Cons r rs)
  then obtain v vs' where "f r = Some v" "read_all f rs = Some vs'" "vs = v # vs'"
    by (auto split: option.splits)
  then show ?case
    using assms(1) Cons.IH by simp
qed

lemma read_cohorts_frame:
  assumes "\<forall>i<length h. lookup h' i = lookup h i" and "read_cohorts h r = Some cs"
  shows "read_cohorts h' r = Some cs"
proof -
  from assms(2) obtain rs where l: "lookup h r = Some (ArrayCell rs)"
    and a: "read_all (read_cohort h) rs = Some cs"
    by (auto simp: read_cohorts_def split: option.splits cell.splits)
  have "read_all (read_cohort h') rs = Some cs"
    by (rule read_all_frame [OF _ a]) (rule read_cohort_frame [OF assms(1)])
  then show ?thesis
    using lookup_frame [OF assms(1) l] by (simp add: read_cohorts_def)
qed

lemma read_history_frame:
  assumes "\<forall>i<length h. lookup h' i = lookup h i" and "read_history h r = Some es"
  shows "read_history h' r = Some es"
proof -
  from assms(2) obtain rs where l: "lookup h r = Some (ArrayCell rs)"
    and a: "read_all (read_entry h) rs = Some es"
    by (auto simp: read_history_def split: option.splits cell.splits)
  have "read_all (read_entry h') rs = Some es"
    by (rule read_all_frame [OF _ a]) (rule read_entry_frame [OF assms(1)])
  then show ?thesis
    using lookup_frame [OF assms(1) l] by (simp add: read_history_def)
qed

lemma read_state_parts:
  assumes "read_state h r = Some s"
  shows "\<exists>so. lookup h r = Some (StateCell so) \<and>
    read_cohorts h (entities_o so) = Some (entities s) \<and>
    lookup h (capability_o so) = Some (VectorCell (capability s)) \<and>
    lookup h (capabilityNormalized_o so) = Some (VectorCell (capabilityNormalized s)) \<and>
    lookup h (investments_o so) = Some (InvestmentCell (investments s)) \<and>
    lookup h (policyParams_o so) = Some (PolicyCell (policyParams s)) \<and>
    lookup h (config_o so) = Some (ConfigCell (config s)) \<and>
    year s = year_o so \<and> totalTalent s = totalTalent_o so \<and> successionScore s = successionScore_o so"
  using assms by (auto simp: read_state_def split: option.splits cell.splits)

lemma read_state_of_parts:
  assumes "lookup h r = Some (StateCell so)"
    "read_cohorts h (entities_o so) = Some (entities s)"
    "lookup h (capability_o so) = Some (VectorCell (capability s))"
    "lookup h (capabilityNormalized_o so) = Some (VectorCell (capabilityNormalized s))"
    "lookup h (investments_o so) = Some (InvestmentCell (investments s))"
    "lookup h (policyParams_o so) = Some (PolicyCell (policyParams s))"
    "lookup h (config_o so) = Some (ConfigCell (config s))"
    "year s = year_o so" "totalTalent s = totalTalent_o so" "successionScore s = successionScore_o so"
  shows "read_state h r = Some s"
  using assms by (simp add: read_state_def)

lemma read_state_frame_gen:
  assumes "\<forall>i<length h. lookup h' i = lookup h i" and "read_state h r = Some s"
    and "lookup h' r' = lookup h r"
  shows "read_state h' r' = Some s"
proof -
  from read_state_parts [OF assms(2)] obtain so where so: "lookup h r = Some (StateCell so)"
    "read_cohorts h (entities_o so) = Some (entities s)"
    "lookup h (capability_o so) = Some (VectorCell (capability s))"
    "lookup h (capabilityNormalized_o so) = Some (VectorCell (capabilityNormalized s))"
    "lookup h (investments_o so) = Some (InvestmentCell (investments s))"
    "lookup h (policyParams_o so) = Some (PolicyCell (policyParams s))"
    "lookup h (config_o so) = Some (ConfigCell (config s))"
    "year s = year_o so" "totalTalent s = totalTalent_o so" "successionScore s = successionScore_o so"
    by blast
  show ?thesis
    by (rule read_state_of_parts [where so = so])
      (simp_all add: assms(3) so read_cohorts_frame [OF assms(1)] lookup_frame [OF assms(1)])
qed

lemma read_state_frame:
  assumes "\<forall>i<length h. lookup h' i = lookup h i" and "read_state h r = Some s"
  shows "read_state h' r = Some s"
proof -
  from read_state_parts [OF assms(2)] obtain so where "lookup h r = Some (StateCell so)"
    by blast
  from lookup_frame [OF assms(1) this] this show ?thesis
    by (intro read_state_frame_gen [OF assms]) simp
qed

lemma lookup_append_less: "i < length h \<Longrightarrow> lookup (h @ cs) i = lookup h i"
  by (simp add: lookup_def nth_append)

lemma lookup_append_new: "lookup (h @ [c]) (length h) = Some c"
  by (simp add: lookup_def)

lemma read_all_alloc_cohorts:
  "read_all (read_cohort (h @ map CohortCell cs @ rest)) [length h ..< length h + length cs] = Some cs"
proof (induction cs arbitrary: h)
  case Nil
  then show ?case by simp
next
  case (Cons c cs)
  have u: "[length h ..< length h + length (c # cs)] = length h # [Suc (length h) ..< Suc (length h) + length cs]"
    by (simp add: upt_conv_Cons del: upt_Suc)
  have "read_cohort (h @ map CohortCell (c # cs) @ rest) (length h) = Some c"
    by (simp add: read_cohort_def lookup_def)
  moreover have "read_all (read_cohort ((h @ [CohortCell c]) @ map CohortCell cs @ rest))
      [length (h @ [CohortCell c]) ..< length (h @ [CohortCell c]) + length cs] = Some cs"
    by (rule Cons.IH)
  ultimately show ?case
    unfolding u by simp
qed

lemma read_all_alloc_entries:
  "read_all (read_entry (h @ map HistoryCell es @ rest)) [length h ..< length h + length es] = Some es"
proof (induction es arbitrary: h)
  case Nil
  then show ?case by simp
next
  case (Cons e es)
  have u: "[length h ..< length h + length (e # es)] = length h # [Suc (length h) ..< Suc (length h) + length es]"
    by (simp add: upt_conv_Cons del: upt_Suc)
  have "read_entry (h @ map HistoryCell (e # es) @ rest) (length h) = Some e"
    by (simp add: read_entry_def lookup_def)
  moreover have "read_all (read_entry ((h @ [HistoryCell e]) @ map HistoryCell es @ rest))
      [length (h @ [HistoryCell e]) ..< length (h @ [HistoryCell e]) + length es] = Some es"
    by (rule Cons.IH)
  ultimately show ?case
    unfolding u by simp
qed

lemma store_state_layout:
  "store_state h s =
     (length h + length (entities s) + 6,
      h @ map CohortCell (entities s) @
        [ArrayCell [length h ..< length h + length (entities s)],
         VectorCell (capability s), VectorCell (capabilityNormalized s),
         InvestmentCell (investments s), PolicyCell (policyParams s), ConfigCell (config s),
         StateCell \<lparr>year_o = year s, entities_o = length h + length (entities s),
                    capability_o = length h + length (entities s) + 1,
                    capabilityNormalized_o = length h + length (entities s) + 2,
                    investments_o = length h + length (entities s) + 3,
                    policyParams_o = length h + length (entities s) + 4,
                    totalTalent_o = totalTalent s, successionScore_o = successionScore s,
                    config_o = length h + length (entities s) + 5\<rparr>])"
  by (simp add: store_state_def alloc_def alloc_all_def Let_def)

lemma read_state_store_state:
  "read_state (snd (store_state h s)) (fst (store_state h s)) = Some s"
proof -
  let ?n = "length h + length (entities s)"
  let ?so = "\<lparr>year_o = year s, entities_o = ?n,
                    capability_o = ?n + 1, capabilityNormalized_o = ?n + 2,
                    investments_o = ?n + 3, policyParams_o = ?n + 4,
                    totalTalent_o = totalTalent s, successionScore_o = successionScore s,
                    config_o = ?n + 5\<rparr>"
  let ?tail = "[ArrayCell [length h ..< ?n],
         VectorCell (capability s), VectorCell (capabilityNormalized s),
         InvestmentCell (investments s), PolicyCell (policyParams s), ConfigCell (config s),
         StateCell ?so]"
  let ?h = "h @ map CohortCell (entities s) @ ?tail"
  have l: "lookup ?h (?n + k) = (if k < 7 then Some (?tail ! k) else None)" for k
    by (simp add: lookup_def nth_append)
  have c: "read_cohorts ?h ?n = Some (entities s)"
    using l [of 0] read_all_alloc_cohorts [of h "entities s" ?tail]
    by (simp add: read_cohorts_def)
  show ?thesis
    unfolding store_state_layout fst_conv snd_conv
    by (rule read_state_of_parts [where so = "?so"])
      (use l [of 1] l [of 2] l [of 3] l [of 4] l [of 5] l [of 6] c in simp_all)
qed

lemma store_engine_layout:
  "store_engine h e =
     (\<lparr>this_state = fst (store_state h (state e)),
       this_history = length (snd (store_state h (state e))) + length (history e)\<rparr>,
      snd (store_state h (state e)) @ map HistoryCell (history e) @
        [ArrayCell [length (snd (store_state h (state e))) ..<
                    length (snd (store_state h (state e))) + length (history e)]])"
  by (simp add: store_engine_def alloc_def alloc_all_def Let_def case_prod_beta)

lemma store_engine_reads:
  "read_state (snd (store_engine h e)) (this_state (fst (store_engine h e))) = Some (state e) \<and>
   read_history (snd (store_engine h e)) (this_history (fst (store_engine h e))) = Some (history e)"
proof -
  let ?h1 = "snd (store_state h (state e))"
  let ?arr = "[ArrayCell [length ?h1 ..< length ?h1 + length (history e)]]"
  have "\<forall>i<length ?h1. lookup (?h1 @ map HistoryCell (history e) @ ?arr) i = lookup ?h1 i"
    by (simp add: lookup_append_less)
  from read_state_frame [OF this read_state_store_state]
  have 1: "read_state (?h1 @ map HistoryCell (history e) @ ?arr) (fst (store_state h (state e))) =
      Some (state e)" .
  have "lookup (?h1 @ map HistoryCell (history e) @ ?arr) (length ?h1 + length (history e)) =
      Some (ArrayCell [length ?h1 ..< length ?h1 + length (history e)])"
    by (simp add: lookup_def nth_append)
  then have 2: "read_history (?h1 @ map HistoryCell (history e) @ ?arr)
      (length ?h1 + length (history e)) = Some (history e)"
    by (simp add: read_history_def read_all_alloc_entries)
  show ?thesis
    unfolding store_engine_layout fst_conv snd_conv using 1 2 by simp
qed

text \<open>
  Claim C10, amended.  \<open>getState()\<close> and \<open>getHistory()\<close> return shallow copies.  In a store where
  the engine's state and history read as \<open>s\<close> and \<open>es\<close>, each call allocates one new object (a
  copy of the state object, or a copy of the history array) holding the same field values and
  references; the new object reads as \<open>s\<close> (as \<open>es\<close>), and any assignment to the new object
  itself leaves what the engine's state and history read as unchanged.  Objects below the
  top level (the \<open>entities\<close> array, the cohorts, the history entries) are shared with the
  engine.
\<close>

theorem snapshots_are_shallow_copies:
  assumes "read_state h (this_state this) = Some s"
    and "read_history h (this_history this) = Some es"
  shows "(\<exists>so. lookup h (this_state this) = Some (StateCell so) \<and>
            getState_store h this = Some (length h, h @ [StateCell so])) \<and>
         (\<exists>rs. lookup h (this_history this) = Some (ArrayCell rs) \<and>
            getHistory_store h this = Some (length h, h @ [ArrayCell rs])) \<and>
         read_state (snd (the (getState_store h this))) (fst (the (getState_store h this))) = Some s \<and>
         read_history (snd (the (getHistory_store h this))) (fst (the (getHistory_store h this))) = Some es \<and>
         read_state (assign (snd (the (getState_store h this))) (fst (the (getState_store h this))) c)
           (this_state this) = Some s \<and>
         read_history (assign (snd (the (getState_store h this))) (fst (the (getState_store h this))) c)
           (this_history this) = Some es \<and>
         read_state (assign (snd (the (getHistory_store h this))) (fst (the (getHistory_store h this))) c)
           (this_state this) = Some s \<and>
         read_history (assign (snd (the (getHistory_store h this))) (fst (the (getHistory_store h this))) c)
           (this_history this) = Some es"
proof -
  from read_state_parts [OF assms(1)] obtain so where so: "lookup h (this_state this) = Some (StateCell so)"
    by blast
  from assms(2) obtain rs where rs: "lookup h (this_history this) = Some (ArrayCell rs)"
    and all: "read_all (read_entry h) rs = Some es"
    by (auto simp: read_history_def split: option.splits cell.splits)
  have gs: "getState_store h this = Some (length h, h @ [StateCell so])"
    by (simp add: getState_store_def so alloc_def)
  have gh: "getHistory_store h this = Some (length h, h @ [ArrayCell rs])"
    by (simp add: getHistory_store_def rs alloc_def)
  have ext: "\<forall>i<length h. lookup (h @ [x]) i = lookup h i" for x
    by (simp add: lookup_append_less)
  have 1: "read_state (h @ [StateCell so]) (length h) = Some s"
    by (rule read_state_frame_gen [OF ext assms(1)]) (simp add: lookup_append_new so)
  have "read_all (read_entry (h @ [ArrayCell rs])) rs = Some es"
    by (rule read_all_frame [OF _ all]) (rule read_entry_frame [OF ext])
  then have 2: "read_history (h @ [ArrayCell rs]) (length h) = Some es"
    by (simp add: read_history_def lookup_append_new)
  have 3: "read_state (h @ [x]) (this_state this) = Some s" for x
    by (rule read_state_frame [OF ext assms(1)])
  have 4: "read_history (h @ [x]) (this_history this) = Some es" for x
    by (rule read_history_frame [OF ext assms(2)])
  show ?thesis
    using so rs 1 2 3 4 by (simp add: gs gh assign_def)
qed



lemma snapshot_cohort_shared:
  assumes "entities (state e) = [c0, c1, c2, c3, c4, c5, c6, c7, c8, c9, c10, c11, c12, c13, c14]"
    and "history e = [x]"
  shows "(case store_engine [] e of
      (this, h0) \<Rightarrow>
        (case getState_store h0 this of
           None \<Rightarrow> False
         | Some (snap1, h1) \<Rightarrow>
             (case getState_store (set_first_cohort_count h1 snap1 v) this of
                None \<Rightarrow> False
              | Some (snap2, h2) \<Rightarrow>
                  map_option (\<lambda>s. map count (take 1 (entities s))) (read_state h1 snap1) = Some [count c0] \<and>
                  map_option (\<lambda>s. map count (take 1 (entities s))) (read_state h2 snap2) = Some [v])))"
  by (simp add: store_engine_layout store_state_layout assms getState_store_def lookup_def alloc_def
      set_first_cohort_count_def assign_def read_state_def read_cohorts_def read_cohort_def
      nth_append upt_conv_Cons)

lemma snapshot_entry_shared:
  assumes "length (entities (state e)) = 15"
    and "history e = [x]"
  shows "(case store_engine [] e of
      (this, h0) \<Rightarrow>
        (case getHistory_store h0 this of
           None \<Rightarrow> False
         | Some (arr1, h1) \<Rightarrow>
             (case getHistory_store (set_first_entry_totalTalent h1 arr1 v) this of
                None \<Rightarrow> False
              | Some (arr2, h2) \<Rightarrow>
                  map_option (map totalTalent_h) (read_history h1 arr1) = Some [totalTalent_h x] \<and>
                  map_option (map totalTalent_h) (read_history h2 arr2) = Some [v])))"
  by (simp add: store_engine_layout store_state_layout assms getHistory_store_def lookup_def alloc_def
      set_first_entry_totalTalent_def assign_def read_history_def read_entry_def
      nth_append upt_conv_Cons)

text \<open>
  Claim C10, as stated, fails: on a freshly constructed engine, after
  \<open>getState().entities[0].count = 0\<close> a second \<open>getState()\<close> reports the count 0 where the
  first reported 60000, and after \<open>getHistory()[0].totalTalent = 0\<close> a second \<open>getHistory()\<close>
  reports 0 where the first reported 538000; no engine operation lies between the calls.
\<close>

theorem snapshot_mutation_reaches_engine:
  "(case store_engine [] (SimulationEngine_new empty_config 0) of
      (this, h0) \<Rightarrow>
        (case getState_store h0 this of
           None \<Rightarrow> False
         | Some (snap1, h1) \<Rightarrow>
             (case getState_store (set_first_cohort_count h1 snap1 0) this of
                None \<Rightarrow> False
              | Some (snap2, h2) \<Rightarrow>
                  map_option (\<lambda>s. map count (take 1 (entities s))) (read_state h1 snap1) = Some [60000] \<and>
                  map_option (\<lambda>s. map count (take 1 (entities s))) (read_state h2 snap2) = Some [0]))) \<and>
   (case store_engine [] (SimulationEngine_new empty_config 0) of
      (this, h0) \<Rightarrow>
        (case getHistory_store h0 this of
           None \<Rightarrow> False
         | Some (arr1, h1) \<Rightarrow>
             (case getHistory_store (set_first_entry_totalTalent h1 arr1 0) this of
                None \<Rightarrow> False
              | Some (arr2, h2) \<Rightarrow>
                  map_option (map totalTalent_h) (read_history h1 arr1) = Some [538000] \<and>
                  map_option (map totalTalent_h) (read_history h2 arr2) = Some [0])))"
proof -
  have e: "entities (state (SimulationEngine_new empty_config 0)) =
      [createInitialCohorts ! 0, createInitialCohorts ! 1, createInitialCohorts ! 2,
       createInitialCohorts ! 3, createInitialCohorts ! 4, createInitialCohorts ! 5,
       createInitialCohorts ! 6, createInitialCohorts ! 7, createInitialCohorts ! 8,
       createInitialCohorts ! 9, createInitialCohorts ! 10, createInitialCohorts ! 11,
       createInitialCohorts ! 12, createInitialCohorts ! 13, createInitialCohorts ! 14]"
    unfolding entities_SimulationEngine_new by (simp add: createInitialCohorts_def)
  have l: "length (entities (state (SimulationEngine_new empty_config 0))) = 15"
    unfolding e by simp
  have c: "count (createInitialCohorts ! 0) = 60000"
    by (simp add: createInitialCohorts_def)
  note h = history_SimulationEngine_new [of empty_config 0]
  show ?thesis
    using snapshot_cohort_shared [OF e h, of 0] snapshot_entry_shared [OF l h, of 0]
    by (simp only: c HistoryEntry.simps calculateTotalTalent_initial simp_thms)
qed

theorem snapshots_are_shallow_copies_witness:
  "read_state (snd (store_engine [] (SimulationEngine_new empty_config 0)))
     (this_state (fst (store_engine [] (SimulationEngine_new empty_config 0)))) =
     Some (state (SimulationEngine_new empty_config 0)) \<and>
   read_history (snd (store_engine [] (SimulationEngine_new empty_config 0)))
     (this_history (fst (store_engine [] (SimulationEngine_new empty_config 0)))) =
     Some (history (SimulationEngine_new empty_config 0)) \<and>
   map_option fst (getState_store (snd (store_engine [] (SimulationEngine_new empty_config 0)))
     (fst (store_engine [] (SimulationEngine_new empty_config 0)))) = Some 24 \<and>
   read_state
     (assign (snd (the (getState_store (snd (store_engine [] (SimulationEngine_new empty_config 0)))
                        (fst (store_engine [] (SimulationEngine_new empty_config 0))))))
        24 (ArrayCell []))
     (this_state (fst (store_engine [] (SimulationEngine_new empty_config 0)))) =
     Some (state (SimulationEngine_new empty_config 0))"
proof -
  let ?this = "fst (store_engine [] (SimulationEngine_new empty_config 0))"
  let ?h = "snd (store_engine [] (SimulationEngine_new empty_config 0))"
  have r: "read_state ?h (this_state ?this) = Some (state (SimulationEngine_new empty_config 0))"
    "read_history ?h (this_history ?this) = Some (history (SimulationEngine_new empty_config 0))"
    using store_engine_reads [of "[]" "SimulationEngine_new empty_config 0"] by simp_all
  have "length createInitialCohorts = 15"
    by (simp add: createInitialCohorts_def)
  then have len: "length ?h = 24"
    by (simp add: store_engine_layout store_state_layout entities_SimulationEngine_new
        history_SimulationEngine_new)
  show ?thesis
    using r snapshots_are_shallow_copies [OF r, of "ArrayCell []"] len by auto
qed


end
